theory Spec2Isabelle
  imports Complex_Main "HOL-Library.Multiset"
begin

section \<open>Data model\<close>

text \<open>
  The GDELT trend service keeps \<^emph>\<open>Trend\<close> documents in a document store
  (\<^verbatim>\<open>src/models/trendModel.js\<close>). A Trend has a type, a calendar day, a category, a
  timestamp and an ordered list of keywords.

  Conventions of the embedding:
  \<^item> a JavaScript \<^verbatim>\<open>Date\<close> is its time value, an \<open>int\<close> of milliseconds since the epoch
    (only valid dates are modelled);
  \<^item> the \<^verbatim>\<open>date\<close> field of a Trend, the string \<^verbatim>\<open>YYYY-MM-DD\<close> cut from
    \<^verbatim>\<open>toISOString()\<close>, is represented by the number of that UTC day (days since
    1970-01-01); equality and order of such strings are equality and order of the day numbers
    for the years 0000 to 9999;
  \<^item> keyword counts are natural numbers;
  \<^item> the collection is the list of its documents in insertion order.
\<close>

datatype trend_type = Realtime | Daily | Ranked

datatype category = Themes | Persons | Orgs | Documents

datatype error = TypeError | ReferenceError string | FetchFailed

record keyword =
  word :: string
  count :: nat
  score :: "int option"

record trend =
  timestamp :: int
  type :: trend_type
  date :: int
  category :: category
  keywords_t :: "keyword list"

type_synonym store = "trend list"

definition msPerDay :: int where
  "msPerDay = 86400000"

text \<open>\<^verbatim>\<open>d.toISOString().slice(0, 10)\<close>: the UTC day of an instant.\<close>

definition isoDate :: "int \<Rightarrow> int" where
  "isoDate t = t div msPerDay"

section \<open>The store operations used by the services\<close>

text \<open>
  \<^verbatim>\<open>Trend.findOneAndUpdate(filter, update, { upsert: true })\<close>: the first document that
  matches the filter is updated in place; when none matches, a document built from the
  filter's equality fields and the update is inserted.
\<close>

fun findOneAndUpdate :: "(trend \<Rightarrow> bool) \<Rightarrow> (trend \<Rightarrow> trend) \<Rightarrow> trend \<Rightarrow> store \<Rightarrow> store" where
  "findOneAndUpdate flt upd ins [] = [ins]"
| "findOneAndUpdate flt upd ins (t # ts) =
     (if flt t then upd t # ts else t # findOneAndUpdate flt upd ins ts)"

definition findOne :: "(trend \<Rightarrow> bool) \<Rightarrow> store \<Rightarrow> trend option" where
  "findOne flt st = find flt st"

definition findAll :: "(trend \<Rightarrow> bool) \<Rightarrow> store \<Rightarrow> trend list" where
  "findAll flt st = filter flt st"

text \<open>The match key \<^verbatim>\<open>{ type, date, category }\<close>.\<close>

definition key3 :: "trend_type \<Rightarrow> int \<Rightarrow> category \<Rightarrow> trend \<Rightarrow> bool" where
  "key3 ty d c t \<longleftrightarrow> type t = ty \<and> date t = d \<and> category t = c"

section \<open>Fetcher: saveTrends\<close>

text \<open>
  \<^verbatim>\<open>saveTrends({ date, timestamp, jobType, themes, persons, orgs, documentIdentifiers = [] })\<close>
  of \<^verbatim>\<open>src/services/gdeltFetcher.js\<close>. A keyword list that may be \<^verbatim>\<open>undefined\<close> is an
  option; \<^verbatim>\<open>jobType || 'realtime'\<close> is the default of an optional job type.
\<close>

record trendData =
  td_type :: trend_type
  td_date :: int
  td_category :: category
  td_keywords :: "keyword list option"
  td_timestamp :: int

definition saveOne :: "store \<Rightarrow> trendData \<Rightarrow> store" where
  "saveOne st td =
     (case td_keywords td of
        None \<Rightarrow> st
      | Some ks \<Rightarrow>
          if length ks > 0 then
            findOneAndUpdate (key3 (td_type td) (td_date td) (td_category td))
              (\<lambda>t. t\<lparr>keywords_t := ks, timestamp := td_timestamp td\<rparr>)
              \<lparr>timestamp = td_timestamp td, type = td_type td, date = td_date td,
               category = td_category td, keywords_t = ks\<rparr>
              st
          else st)"

definition jobTypeOr :: "trend_type option \<Rightarrow> trend_type" where
  "jobTypeOr jobType = (case jobType of Some j \<Rightarrow> j | None \<Rightarrow> Realtime)"

definition saveTrends ::
  "store \<Rightarrow> int \<Rightarrow> int \<Rightarrow> trend_type option \<Rightarrow> keyword list option \<Rightarrow> keyword list option \<Rightarrow>
   keyword list option \<Rightarrow> string list \<Rightarrow> store" where
  "saveTrends st dt ts jobType themes_kw persons_kw orgs_kw docIds =
     (let trends =
        [\<lparr>td_type = jobTypeOr jobType, td_date = isoDate dt, td_category = Themes,
          td_keywords = themes_kw, td_timestamp = ts\<rparr>,
         \<lparr>td_type = jobTypeOr jobType, td_date = isoDate dt, td_category = Persons,
          td_keywords = persons_kw, td_timestamp = ts\<rparr>,
         \<lparr>td_type = jobTypeOr jobType, td_date = isoDate dt, td_category = Orgs,
          td_keywords = orgs_kw, td_timestamp = ts\<rparr>]
        @ (if length docIds > 0 then
             [\<lparr>td_type = jobTypeOr jobType, td_date = isoDate dt, td_category = Documents,
               td_keywords = Some (map (\<lambda>id. \<lparr>word = id, count = 1, score = None\<rparr>) docIds),
               td_timestamp = ts\<rparr>]
           else [])
      in foldl saveOne st trends)"

text \<open>The keyword list \<open>saveTrends\<close> is given for a category.\<close>

definition givenKeywords ::
  "keyword list option \<Rightarrow> keyword list option \<Rightarrow> keyword list option \<Rightarrow> string list \<Rightarrow>
   category \<Rightarrow> keyword list option" where
  "givenKeywords themes_kw persons_kw orgs_kw docIds c =
     (case c of
        Themes \<Rightarrow> themes_kw
      | Persons \<Rightarrow> persons_kw
      | Orgs \<Rightarrow> orgs_kw
      | Documents \<Rightarrow> Some (map (\<lambda>id. \<lparr>word = id, count = 1, score = None\<rparr>) docIds))"

section \<open>Tokenizer\<close>

text \<open>
  \<^verbatim>\<open>src/utils/cleaner.js\<close>, the revision with the noise filter (the one whose exports
  the scorer imports). A string is a list of 8-bit code units, read as Latin-1:
  a word character is one of \<^verbatim>\<open>[A-Za-z0-9_]\<close>, a digit one of \<^verbatim>\<open>[0-9]\<close>, the white
  space of the regular expressions and of \<^verbatim>\<open>trim()\<close> is the code units 9 to 13, 32 and
  160, and
  \<^verbatim>\<open>toLowerCase()\<close> maps \<^verbatim>\<open>A-Z\<close> and the upper-case letters 192 to 222 (without 215)
  to the code unit 32 above.
\<close>

definition code :: "char \<Rightarrow> nat" where
  "code c = of_char c"

definition isDigit :: "char \<Rightarrow> bool" where
  "isDigit c \<longleftrightarrow> 48 \<le> code c \<and> code c \<le> 57"

definition isLowerAZ :: "char \<Rightarrow> bool" where
  "isLowerAZ c \<longleftrightarrow> 97 \<le> code c \<and> code c \<le> 122"

definition isUpperAZ :: "char \<Rightarrow> bool" where
  "isUpperAZ c \<longleftrightarrow> 65 \<le> code c \<and> code c \<le> 90"

definition isWordChar :: "char \<Rightarrow> bool" where
  "isWordChar c \<longleftrightarrow> isLowerAZ c \<or> isUpperAZ c \<or> isDigit c \<or> c = CHR ''_''"

definition isSpace :: "char \<Rightarrow> bool" where
  "isSpace c \<longleftrightarrow> (9 \<le> code c \<and> code c \<le> 13) \<or> code c = 32 \<or> code c = 160"

definition toLowerChar :: "char \<Rightarrow> char" where
  "toLowerChar c =
     (if isUpperAZ c \<or> (192 \<le> code c \<and> code c \<le> 222 \<and> code c \<noteq> 215)
      then char_of (code c + 32) else c)"

definition toLowerCase :: "string \<Rightarrow> string" where
  "toLowerCase s = map toLowerChar s"

definition trim :: "string \<Rightarrow> string" where
  "trim s = rev (dropWhile isSpace (rev (dropWhile isSpace s)))"

text \<open>
  The first \<^verbatim>\<open>replace\<close> of \<open>cleanKeyword\<close> removes the leading and the trailing run
  of non-word characters; the second replaces every maximal run of white space by one
  space.
\<close>

definition stripNonWord :: "string \<Rightarrow> string" where
  "stripNonWord s =
     rev (dropWhile (\<lambda>c. \<not> isWordChar c) (rev (dropWhile (\<lambda>c. \<not> isWordChar c) s)))"

function collapseSpaces :: "string \<Rightarrow> string" where
  "collapseSpaces [] = []"
| "collapseSpaces (c # cs) =
     (if isSpace c then CHR '' '' # collapseSpaces (dropWhile isSpace cs)
      else c # collapseSpaces cs)"
  by pat_completeness auto
termination
  by (relation "measure length") (auto simp: le_imp_less_Suc length_dropWhile_le)

definition STOPWORDS :: "string list" where
  "STOPWORDS = [''the'', ''a'', ''an'', ''and'', ''or'', ''of'', ''in'', ''for'', ''on'',
     ''with'', ''to'', ''from'', ''by'', ''at'', ''is'', ''was'', ''are'']"

definition cleanKeyword :: "string \<Rightarrow> string option" where
  "cleanKeyword raw =
     (if raw = [] then None
      else let s = trim (toLowerCase raw);
               s = stripNonWord s;
               s = collapseSpaces s
           in if length s = 0 then None
              else if s \<in> set STOPWORDS then None
              else Some s)"

text \<open>\<^verbatim>\<open>fieldValue.split(';')\<close>: the parts between the separators, at least one.\<close>

fun split :: "char \<Rightarrow> string \<Rightarrow> string list" where
  "split d [] = [[]]"
| "split d (c # cs) =
     (if c = d then [] # split d cs
      else (case split d cs of p # ps \<Rightarrow> (c # p) # ps | [] \<Rightarrow> [[c]]))"

text \<open>
  The regular expressions of the noise tests are terms of the type \<open>rex\<close>; \<open>matches\<close>
  decides whether the whole string is in the language of an expression, by derivatives. A
  test that is anchored at the start only ends in \<open>Anything\<close>.
\<close>

datatype rex = Never | Empty | Class "char \<Rightarrow> bool" | Alt rex rex | Seq rex rex | Star rex

fun nullable :: "rex \<Rightarrow> bool" where
  "nullable Never = False"
| "nullable Empty = True"
| "nullable (Class p) = False"
| "nullable (Alt r s) = (nullable r \<or> nullable s)"
| "nullable (Seq r s) = (nullable r \<and> nullable s)"
| "nullable (Star r) = True"

fun deriv :: "char \<Rightarrow> rex \<Rightarrow> rex" where
  "deriv c Never = Never"
| "deriv c Empty = Never"
| "deriv c (Class p) = (if p c then Empty else Never)"
| "deriv c (Alt r s) = Alt (deriv c r) (deriv c s)"
| "deriv c (Seq r s) =
     (if nullable r then Alt (Seq (deriv c r) s) (deriv c s) else Seq (deriv c r) s)"
| "deriv c (Star r) = Seq (deriv c r) (Star r)"

definition matches :: "rex \<Rightarrow> string \<Rightarrow> bool" where
  "matches r s = nullable (fold deriv s r)"

text \<open>
  The language of an expression, the reference for \<open>matches\<close> (lemma \<open>matches_lang\<close>).
\<close>

inductive_set star :: "string set \<Rightarrow> string set" for A :: "string set" where
  star_empty: "[] \<in> star A"
| star_step: "u \<in> A \<Longrightarrow> v \<in> star A \<Longrightarrow> u @ v \<in> star A"

fun lang :: "rex \<Rightarrow> string set" where
  "lang Never = {}"
| "lang Empty = {[]}"
| "lang (Class p) = {[c] | c. p c}"
| "lang (Alt r s) = lang r \<union> lang s"
| "lang (Seq r s) = {u @ v | u v. u \<in> lang r \<and> v \<in> lang s}"
| "lang (Star r) = star (lang r)"

definition Lit :: "string \<Rightarrow> rex" where
  "Lit s = foldr (\<lambda>c r. Seq (Class (\<lambda>x. x = c)) r) s Empty"

definition Opt :: "rex \<Rightarrow> rex" where
  "Opt r = Alt r Empty"

definition Plus :: "rex \<Rightarrow> rex" where
  "Plus r = Seq r (Star r)"

definition Anything :: rex where
  "Anything = Star (Class (\<lambda>c. True))"

text \<open>
  The expressions of \<open>isUrl\<close> (the prefix \<^verbatim>\<open>http://\<close> or \<^verbatim>\<open>https://\<close>, the prefix
  \<^verbatim>\<open>www.\<close>), of \<open>isStrictDomain\<close> (one or more of \<^verbatim>\<open>[a-z0-9.-]\<close>, a dot, two or more
  of \<^verbatim>\<open>[a-z]\<close>) and of \<open>isNumericVector\<close> (a number followed by three or more groups of
  a comma and a number, a number being digits with an optional fraction).
\<close>

definition rxHttp :: rex where
  "rxHttp = Seq (Lit ''http'') (Seq (Opt (Lit ''s'')) (Seq (Lit ''://'') Anything))"

definition rxWww :: rex where
  "rxWww = Seq (Lit ''www.'') Anything"

definition rxDomain :: rex where
  "rxDomain = Seq (Plus (Class (\<lambda>c. isLowerAZ c \<or> isDigit c \<or> c = CHR ''.'' \<or> c = CHR ''-'')))
               (Seq (Lit ''.'') (Seq (Class isLowerAZ) (Plus (Class isLowerAZ))))"

definition rxNumber :: rex where
  "rxNumber = Seq (Plus (Class isDigit)) (Opt (Seq (Lit ''.'') (Plus (Class isDigit))))"

definition rxNumericVector :: rex where
  "rxNumericVector =
     Seq rxNumber
       (Seq (Seq (Lit '','') rxNumber) (Seq (Seq (Lit '','') rxNumber)
          (Plus (Seq (Lit '','') rxNumber))))"

definition isStrictDomain :: "string \<Rightarrow> bool" where
  "isStrictDomain token = (let s = toLowerCase token in matches rxDomain s \<and> CHR '' '' \<notin> set s)"

definition isUrl :: "string \<Rightarrow> bool" where
  "isUrl token = (let s = toLowerCase token in matches rxHttp s \<or> matches rxWww s)"

definition isNumericVector :: "string \<Rightarrow> bool" where
  "isNumericVector token = (if token = [] then False else matches rxNumericVector token)"

text \<open>
  \<^verbatim>\<open>digits / Math.max(s.length, 1) > 0.6\<close>: the quotient of two lengths exceeds the
  double nearest to 0.6 exactly when five times the digits exceed three times the length.
\<close>

definition isMostlyDigitsOrPunct :: "string \<Rightarrow> bool" where
  "isMostlyDigitsOrPunct token =
     (if token = [] then False
      else let digits = length (filter isDigit token)
           in 5 * digits > 3 * max (length token) 1)"

definition isNoiseToken :: "string \<Rightarrow> bool" where
  "isNoiseToken token =
     (if token = [] then True
      else let s = trim token in
        if length s < 3 then True
        else if isUrl s \<or> isStrictDomain s then True
        else if isNumericVector s then True
        else if isMostlyDigitsOrPunct s then True
        else False)"

definition splitAndClean :: "string \<Rightarrow> string list" where
  "splitAndClean fieldValue =
     (if fieldValue = [] then []
      else filter (\<lambda>token. \<not> isNoiseToken token)
             (List.map_filter cleanKeyword (split (CHR '';'') fieldValue)))"

section \<open>Ranker\<close>

text \<open>
  \<^verbatim>\<open>src/utils/ranker.js\<close>. The counting object \<^verbatim>\<open>Object.create(null)\<close> is the list of
  its properties in creation order. \<^verbatim>\<open>Object.entries\<close> lists the keys that are array
  indices (canonical decimal integers up to \<open>2^32 - 2\<close>) first, in ascending numeric
  order, and then the other keys in creation order. \<^verbatim>\<open>Array.prototype.sort\<close> is stable;
  \<^verbatim>\<open>slice(0, topN)\<close> takes the first \<open>topN\<close> elements, \<open>topN\<close> being a natural number.
\<close>

type_synonym jsobject = "(string \<times> nat) list"

definition objGet :: "jsobject \<Rightarrow> string \<Rightarrow> nat option" where
  "objGet obj k = map_of obj k"

fun objSet :: "(string \<times> 'v) list \<Rightarrow> string \<Rightarrow> 'v \<Rightarrow> (string \<times> 'v) list" where
  "objSet [] k v = [(k, v)]"
| "objSet ((k', v') # ps) k v = (if k' = k then (k, v) # ps else (k', v') # objSet ps k v)"

definition digitsValue :: "string \<Rightarrow> nat" where
  "digitsValue k = foldl (\<lambda>n c. 10 * n + (code c - 48)) 0 k"

definition isArrayIndex :: "string \<Rightarrow> bool" where
  "isArrayIndex k \<longleftrightarrow>
     k \<noteq> [] \<and> list_all isDigit k \<and> (k = ''0'' \<or> hd k \<noteq> CHR ''0'') \<and> digitsValue k \<le> 4294967294"

definition objectEntries :: "jsobject \<Rightarrow> (string \<times> nat) list" where
  "objectEntries obj =
     sort_key (\<lambda>p. digitsValue (fst p)) (filter (\<lambda>p. isArrayIndex (fst p)) obj)
     @ filter (\<lambda>p. \<not> isArrayIndex (fst p)) obj"

definition tally :: "jsobject \<Rightarrow> string \<Rightarrow> jsobject" where
  "tally counts k = objSet counts k ((case objGet counts k of None \<Rightarrow> 0 | Some c \<Rightarrow> c) + 1)"

definition sortByCountDesc :: "keyword list \<Rightarrow> keyword list" where
  "sortByCountDesc ks = sort_key (\<lambda>a. - int (count a)) ks"

definition rankByCount :: "string list \<Rightarrow> nat \<Rightarrow> keyword list" where
  "rankByCount arr topN =
     (let counts = foldl tally [] arr;
          result = take topN (sortByCountDesc
                     (map (\<lambda>(w, c). \<lparr>word = w, count = c, score = None\<rparr>) (objectEntries counts)))
      in result)"



section \<open>Aggregator\<close>

text \<open>
  \<^verbatim>\<open>src/services/aggregator.js\<close>. Its own \<^verbatim>\<open>rankByCount\<close> takes keyword objects
  \<^verbatim>\<open>{word, count, documents?}\<close>; a property that may be missing is an option. The
  \<^verbatim>\<open>Map\<close> is an association list in insertion order, a \<^verbatim>\<open>Set\<close> of documents a list
  without duplicates in insertion order. Reading \<^verbatim>\<open>item.word.toLowerCase()\<close> of an item
  without a word throws a TypeError.
\<close>

record item =
  item_word :: "string option"
  item_count :: "nat option"
  item_documents :: "string list option"

record entry =
  entry_word :: string
  entry_count :: nat
  entry_documents :: "string list"

record 'a collector =
  themes :: "'a list"
  persons :: "'a list"
  orgs :: "'a list"
  documentIdentifiers :: "string list"

record config =
  cfg_topN :: nat
  cfg_gdeltBaseUrl :: string
  cfg_gdeltDailyBaseUrl :: string

datatype selection = All | Only category

text \<open>\<^verbatim>\<open>config.topN || 50\<close>\<close>

definition topNOr50 :: "config \<Rightarrow> nat" where
  "topNOr50 cfg = (if cfg_topN cfg = 0 then 50 else cfg_topN cfg)"

text \<open>\<^verbatim>\<open>item.count || 1\<close>\<close>

definition countOr1 :: "nat option \<Rightarrow> nat" where
  "countOr1 c = (case c of None \<Rightarrow> 1 | Some n \<Rightarrow> if n = 0 then 1 else n)"

definition setAdd :: "'a list \<Rightarrow> 'a \<Rightarrow> 'a list" where
  "setAdd ds d = (if d \<in> set ds then ds else ds @ [d])"

definition aggStep :: "(string \<times> entry) list \<Rightarrow> item \<Rightarrow> error + (string \<times> entry) list" where
  "aggStep m it =
     (case item_word it of
        None \<Rightarrow> Inl TypeError
      | Some wd \<Rightarrow>
          let w = toLowerCase wd;
              m1 = (if map_of m w = None
                    then objSet m w \<lparr>entry_word = w, entry_count = 0, entry_documents = []\<rparr>
                    else m)
          in (case map_of m1 w of
                None \<Rightarrow> Inr m1
              | Some e \<Rightarrow>
                  Inr (objSet m1 w
                    (e\<lparr>entry_count := entry_count e + countOr1 (item_count it),
                       entry_documents :=
                         (case item_documents it of
                            None \<Rightarrow> entry_documents e
                          | Some ds \<Rightarrow> foldl setAdd (entry_documents e) ds)\<rparr>))))"

fun aggLoop :: "(string \<times> entry) list \<Rightarrow> item list \<Rightarrow> error + (string \<times> entry) list" where
  "aggLoop m [] = Inr m"
| "aggLoop m (it # its) = (case aggStep m it of Inl e \<Rightarrow> Inl e | Inr m' \<Rightarrow> aggLoop m' its)"

definition rankByCount_agg :: "item list \<Rightarrow> nat \<Rightarrow> error + entry list" where
  "rankByCount_agg arr topN =
     (case aggLoop [] arr of
        Inl e \<Rightarrow> Inl e
      | Inr m \<Rightarrow> Inr (take topN (sort_key (\<lambda>a. - int (entry_count a)) (map snd m))))"

text \<open>
  The keyword schema of the model has the fields word, count and score; the documents of
  a ranked entry are not persisted.
\<close>

definition toKeyword :: "entry \<Rightarrow> keyword" where
  "toKeyword e = \<lparr>word = entry_word e, count = entry_count e, score = None\<rparr>"

text \<open>\<^verbatim>\<open>collector[cat] || []\<close>\<close>

definition collectorGet :: "'a collector \<Rightarrow> category \<Rightarrow> 'a list" where
  "collectorGet collector cat =
     (case cat of Themes \<Rightarrow> themes collector | Persons \<Rightarrow> persons collector
      | Orgs \<Rightarrow> orgs collector | Documents \<Rightarrow> [])"

definition categoriesToProcess :: "selection \<Rightarrow> category list" where
  "categoriesToProcess sel = (case sel of All \<Rightarrow> [Themes, Persons, Orgs] | Only cat \<Rightarrow> [cat])"

text \<open>The match key \<^verbatim>\<open>{ type, date, category, timestamp }\<close> of \<open>aggregateFromFile\<close>.\<close>

definition key4 :: "trend_type \<Rightarrow> int \<Rightarrow> category \<Rightarrow> int \<Rightarrow> trend \<Rightarrow> bool" where
  "key4 ty d c ts t \<longleftrightarrow> type t = ty \<and> date t = d \<and> category t = c \<and> timestamp t = ts"

text \<open>\<^verbatim>\<open>Array.from(new Set(ids))\<close>: the distinct elements in order of first occurrence.\<close>

definition uniqueIds :: "'a list \<Rightarrow> 'a list" where
  "uniqueIds ids = foldl setAdd [] ids"

text \<open>
  \<open>aggregateFromFile({ collector, timestamp, category = 'all' })\<close>. The upserts are
  started one category after the other; when \<open>rankByCount\<close> throws for a category, the
  upserts already started still reach the store and the call is rejected. A call returns
  its outcome and the store it leaves. The cache writes are outside the model.
\<close>

fun fileLoop ::
  "nat \<Rightarrow> item collector \<Rightarrow> int \<Rightarrow> category list \<Rightarrow> store \<Rightarrow> error option \<times> store" where
  "fileLoop topN collector ts [] st = (None, st)"
| "fileLoop topN collector ts (cat # cats) st =
     (case rankByCount_agg (collectorGet collector cat) topN of
        Inl e \<Rightarrow> (Some e, st)
      | Inr ranked \<Rightarrow>
          let doc = \<lparr>timestamp = ts, type = Realtime, date = isoDate ts, category = cat,
                     keywords_t = map toKeyword ranked\<rparr>
          in fileLoop topN collector ts cats
               (findOneAndUpdate (key4 Realtime (isoDate ts) cat ts) (\<lambda>t. doc) doc st))"

definition aggregateFromFile ::
  "config \<Rightarrow> store \<Rightarrow> item collector \<Rightarrow> int \<Rightarrow> selection \<Rightarrow> (error + bool) \<times> store" where
  "aggregateFromFile cfg st collector ts sel =
     (case fileLoop (topNOr50 cfg) collector ts (categoriesToProcess sel) st of
        (Some e, st1) \<Rightarrow> (Inl e, st1)
      | (None, st1) \<Rightarrow>
          let docIdsUnique = uniqueIds (documentIdentifiers collector);
              docIdsDoc = \<lparr>timestamp = ts, type = Realtime, date = isoDate ts,
                           category = Documents,
                           keywords_t = map (\<lambda>id. \<lparr>word = id, count = 1, score = None\<rparr>)
                                          docIdsUnique\<rparr>
          in (Inr True,
              if length docIdsUnique > 0
              then findOneAndUpdate (key4 Realtime (isoDate ts) Documents ts)
                     (\<lambda>t. docIdsDoc) docIdsDoc st1
              else st1))"

text \<open>
  \<open>aggregateDaily({ collectorsArray, date, category = 'all' })\<close>; \<open>now\<close> is the value of
  \<^verbatim>\<open>new Date()\<close> at the call.
\<close>

definition mergeCollectors :: "item collector list \<Rightarrow> item collector" where
  "mergeCollectors cs =
     \<lparr>themes = concat (map themes cs), persons = concat (map persons cs),
      orgs = concat (map orgs cs), documentIdentifiers = concat (map documentIdentifiers cs)\<rparr>"

fun dayLoop ::
  "nat \<Rightarrow> item collector \<Rightarrow> int \<Rightarrow> int \<Rightarrow> category list \<Rightarrow> store \<Rightarrow> error option \<times> store" where
  "dayLoop topN merged d now [] st = (None, st)"
| "dayLoop topN merged d now (cat # cats) st =
     (case rankByCount_agg (collectorGet merged cat) topN of
        Inl e \<Rightarrow> (Some e, st)
      | Inr ranked \<Rightarrow>
          let doc = \<lparr>timestamp = now, type = Daily, date = d, category = cat,
                     keywords_t = map toKeyword ranked\<rparr>
          in dayLoop topN merged d now cats
               (findOneAndUpdate (key3 Daily d cat) (\<lambda>t. doc) doc st))"

definition aggregateDaily ::
  "config \<Rightarrow> store \<Rightarrow> item collector list \<Rightarrow> int \<Rightarrow> selection \<Rightarrow> int \<Rightarrow> (error + bool) \<times> store" where
  "aggregateDaily cfg st collectorsArray d sel now =
     (let merged = mergeCollectors collectorsArray in
      case dayLoop (topNOr50 cfg) merged d now (categoriesToProcess sel) st of
        (Some e, st1) \<Rightarrow> (Inl e, st1)
      | (None, st1) \<Rightarrow>
          let docIdsUnique = uniqueIds (documentIdentifiers merged);
              docIdsDoc = \<lparr>timestamp = now, type = Daily, date = d, category = Documents,
                           keywords_t = map (\<lambda>id. \<lparr>word = id, count = 1, score = None\<rparr>)
                                          docIdsUnique\<rparr>
          in (Inr True,
              if length docIdsUnique > 0
              then findOneAndUpdate (key3 Daily d Documents) (\<lambda>t. docIdsDoc) docIdsDoc st1
              else st1))"

text \<open>The writes of the Aggregator and of the Fetcher's \<open>saveTrends\<close>, and their runs.\<close>

datatype write_op =
    AggregateFromFile "item collector" int selection
  | AggregateDaily "item collector list" int selection int
  | SaveTrends int int "trend_type option" "keyword list option" "keyword list option"
      "keyword list option" "string list"

fun applyWrite :: "config \<Rightarrow> store \<Rightarrow> write_op \<Rightarrow> store" where
  "applyWrite cfg st (AggregateFromFile collector ts sel) =
     snd (aggregateFromFile cfg st collector ts sel)"
| "applyWrite cfg st (AggregateDaily collectorsArray d sel now) =
     snd (aggregateDaily cfg st collectorsArray d sel now)"
| "applyWrite cfg st (SaveTrends dt ts jobType themes_kw persons_kw orgs_kw docIds) =
     saveTrends st dt ts jobType themes_kw persons_kw orgs_kw docIds"

definition runWrites :: "config \<Rightarrow> store \<Rightarrow> write_op list \<Rightarrow> store" where
  "runWrites cfg st ws = foldl (applyWrite cfg) st ws"

fun isAggregateFromFile :: "write_op \<Rightarrow> bool" where
  "isAggregateFromFile (AggregateFromFile collector ts sel) = True"
| "isAggregateFromFile w = False"

definition countKey :: "trend_type \<Rightarrow> int \<Rightarrow> category \<Rightarrow> store \<Rightarrow> nat" where
  "countKey ty d c st = length (filter (key3 ty d c) st)"

section \<open>Fetcher\<close>

text \<open>
  \<^verbatim>\<open>src/services/gdeltFetcher.js\<close>. The UTC fields of a date are computed from its day
  number by the usual civil-calendar arithmetic. The expression
  \<^verbatim>\<open>new Date(Date.UTC(date.getUTCFullYear(), date.getUTCMonth(), date.getUTCDate() - k))\<close>
  is the UTC midnight \<open>k\<close> days before the day of \<open>date\<close>.
\<close>

definition civilFromDays :: "int \<Rightarrow> int \<times> int \<times> int" where
  "civilFromDays z0 =
     (let z = z0 + 719468;
          era = z div 146097;
          doe = z - era * 146097;
          yoe = (doe - doe div 1460 + doe div 36524 - doe div 146096) div 365;
          y = yoe + era * 400;
          doy = doe - (365 * yoe + yoe div 4 - yoe div 100);
          mp = (5 * doy + 2) div 153;
          d = doy - (153 * mp + 2) div 5 + 1;
          m = (if mp < 10 then mp + 3 else mp - 9)
      in (if m \<le> 2 then y + 1 else y, m, d))"

definition getUTCFullYear :: "int \<Rightarrow> int" where
  "getUTCFullYear t = fst (civilFromDays (t div msPerDay))"

definition getUTCMonth :: "int \<Rightarrow> int" where
  "getUTCMonth t = fst (snd (civilFromDays (t div msPerDay))) - 1"

definition getUTCDate :: "int \<Rightarrow> int" where
  "getUTCDate t = snd (snd (civilFromDays (t div msPerDay)))"

definition getUTCHours :: "int \<Rightarrow> int" where
  "getUTCHours t = (t mod msPerDay) div 3600000"

definition getUTCMinutes :: "int \<Rightarrow> int" where
  "getUTCMinutes t = (t mod 3600000) div 60000"

definition utcMidnightBefore :: "int \<Rightarrow> int \<Rightarrow> int" where
  "utcMidnightBefore t k = (t div msPerDay - k) * msPerDay"

text \<open>\<^verbatim>\<open>String(n)\<close> of an integer and \<^verbatim>\<open>padStart(2, '0')\<close>.\<close>

definition digitChar :: "nat \<Rightarrow> char" where
  "digitChar n = char_of (48 + n)"

function showNat :: "nat \<Rightarrow> string" where
  "showNat n = (if n < 10 then [digitChar n] else showNat (n div 10) @ [digitChar (n mod 10)])"
  by pat_completeness auto
termination
  by (relation "measure id") auto

declare showNat.simps [simp del]

definition String :: "int \<Rightarrow> string" where
  "String i = (if i < 0 then CHR ''-'' # showNat (nat (- i)) else showNat (nat i))"

definition padStart2 :: "string \<Rightarrow> string" where
  "padStart2 s = replicate (2 - length s) (CHR ''0'') @ s"

definition getFilenameForUTC :: "int \<Rightarrow> string" where
  "getFilenameForUTC dt =
     (let year = getUTCFullYear dt;
          month = padStart2 (String (getUTCMonth dt + 1));
          day = padStart2 (String (getUTCDate dt));
          hours = padStart2 (String (getUTCHours dt));
          minutes = padStart2 (String ((getUTCMinutes dt div 15) * 15))
      in String year @ month @ day @ hours @ minutes @ ''00.gkg.csv.zip'')"

definition getDailyFilenameForUTC :: "int \<Rightarrow> string" where
  "getDailyFilenameForUTC dt =
     (let year = getUTCFullYear dt;
          month = padStart2 (String (getUTCMonth dt + 1));
          day = padStart2 (String (getUTCDate dt))
      in String year @ month @ day @ ''.gkg.csv.zip'')"

text \<open>
  \<open>downloadAndParse(url)\<close>: the download, the decompression and the CSV parse of one
  archive are the environment of the model, a function from the URL to the collector of the
  file or to the failure of the attempt.
\<close>

type_synonym download = "string \<Rightarrow> error + string collector"

record rankedCollector =
  ranked_themes :: "keyword list"
  ranked_persons :: "keyword list"
  ranked_orgs :: "keyword list"

definition rankCollector :: "config \<Rightarrow> string collector \<Rightarrow> rankedCollector" where
  "rankCollector cfg collector =
     (let topN = topNOr50 cfg
      in \<lparr>ranked_themes = rankByCount (themes collector) topN,
          ranked_persons = rankByCount (persons collector) topN,
          ranked_orgs = rankByCount (orgs collector) topN\<rparr>)"

record options =
  opt_jobType :: "trend_type option"
  opt_timestamp :: "int option"

definition fifteenUrl :: "config \<Rightarrow> int \<Rightarrow> string" where
  "fifteenUrl cfg dt = cfg_gdeltBaseUrl cfg @ ''/'' @ getFilenameForUTC dt"

definition dailyUrl :: "config \<Rightarrow> int \<Rightarrow> string" where
  "dailyUrl cfg d = cfg_gdeltDailyBaseUrl cfg @ ''/'' @ getDailyFilenameForUTC d"

text \<open>
  The \<^verbatim>\<open>try\<close> block of the 15-minute file. After the file is parsed and ranked, the block
  evaluates \<^verbatim>\<open>d.toISOString()\<close>; no variable \<^verbatim>\<open>d\<close> is in scope there (it is declared
  in the body of the fallback loop), so the evaluation throws a ReferenceError before
  \<open>saveTrends\<close> is reached. The result of the block is the store it leaves, or the error the
  \<^verbatim>\<open>catch\<close> clause receives.
\<close>

definition tryFifteen :: "config \<Rightarrow> download \<Rightarrow> store \<Rightarrow> int \<Rightarrow> options \<Rightarrow> error + store" where
  "tryFifteen cfg download st dt opts =
     (case download (fifteenUrl cfg dt) of
        Inl err \<Rightarrow> Inl err
      | Inr collector \<Rightarrow>
          let ranked = rankCollector cfg collector
          in Inl (ReferenceError ''d''))"

text \<open>The fallback loop \<^verbatim>\<open>for (const offsetDays of [0, 1])\<close>.\<close>

fun dailyFallback :: "config \<Rightarrow> download \<Rightarrow> store \<Rightarrow> int \<Rightarrow> int list \<Rightarrow> bool \<times> store" where
  "dailyFallback cfg download st dt [] = (False, st)"
| "dailyFallback cfg download st dt (offsetDays # rest) =
     (let d = utcMidnightBefore dt offsetDays
      in case download (dailyUrl cfg d) of
           Inl err \<Rightarrow> dailyFallback cfg download st dt rest
         | Inr collector \<Rightarrow>
             let ranked = rankCollector cfg collector;
                 dailyDate = utcMidnightBefore d 0
             in (True,
                 saveTrends st dailyDate dailyDate (Some Daily)
                   (Some (ranked_themes ranked)) (Some (ranked_persons ranked))
                   (Some (ranked_orgs ranked)) (documentIdentifiers collector)))"

definition fetchAndProcess ::
  "config \<Rightarrow> download \<Rightarrow> store \<Rightarrow> int \<Rightarrow> options \<Rightarrow> bool \<times> store" where
  "fetchAndProcess cfg download st dt opts =
     (let timestamp = (case opt_timestamp opts of Some t \<Rightarrow> t | None \<Rightarrow> dt)
      in case tryFifteen cfg download st dt opts of
           Inr st' \<Rightarrow> (True, st')
         | Inl err \<Rightarrow> dailyFallback cfg download st dt [0, 1])"

text \<open>
  The earlier revision of the same file (\<^verbatim>\<open>src/unnamed/part_000\<close>): its 15-minute
  block saves the ranked lists under \<^verbatim>\<open>options.jobType || 'realtime'\<close>, and it does not
  collect document identifiers.
\<close>

definition tryFifteen_v0 :: "config \<Rightarrow> download \<Rightarrow> store \<Rightarrow> int \<Rightarrow> options \<Rightarrow> error + store" where
  "tryFifteen_v0 cfg download st dt opts =
     (let timestamp = (case opt_timestamp opts of Some t \<Rightarrow> t | None \<Rightarrow> dt)
      in case download (fifteenUrl cfg dt) of
           Inl err \<Rightarrow> Inl err
         | Inr collector \<Rightarrow>
             let ranked = rankCollector cfg collector
             in Inr (saveTrends st dt timestamp (Some (jobTypeOr (opt_jobType opts)))
                       (Some (ranked_themes ranked)) (Some (ranked_persons ranked))
                       (Some (ranked_orgs ranked)) []))"

fun dailyFallback_v0 :: "config \<Rightarrow> download \<Rightarrow> store \<Rightarrow> int \<Rightarrow> int list \<Rightarrow> bool \<times> store" where
  "dailyFallback_v0 cfg download st dt [] = (False, st)"
| "dailyFallback_v0 cfg download st dt (offsetDays # rest) =
     (let d = utcMidnightBefore dt offsetDays
      in case download (dailyUrl cfg d) of
           Inl err \<Rightarrow> dailyFallback_v0 cfg download st dt rest
         | Inr collector \<Rightarrow>
             let ranked = rankCollector cfg collector;
                 dailyDate = utcMidnightBefore d 0
             in (True,
                 saveTrends st dailyDate dailyDate (Some Daily)
                   (Some (ranked_themes ranked)) (Some (ranked_persons ranked))
                   (Some (ranked_orgs ranked)) []))"

definition fetchAndProcess_v0 ::
  "config \<Rightarrow> download \<Rightarrow> store \<Rightarrow> int \<Rightarrow> options \<Rightarrow> bool \<times> store" where
  "fetchAndProcess_v0 cfg download st dt opts =
     (case tryFifteen_v0 cfg download st dt opts of
        Inr st' \<Rightarrow> (True, st')
      | Inl err \<Rightarrow> dailyFallback_v0 cfg download st dt [0, 1])"

section \<open>Trend scorer\<close>

text \<open>
  \<^verbatim>\<open>src/services/trendScorer.js\<close>. The arithmetic of the scorer is read over the real
  numbers: \<^verbatim>\<open>Math.log1p(x)\<close> is \<open>ln (1 + x)\<close>, \<^verbatim>\<open>Math.sqrt\<close> is \<open>sqrt\<close> and
  \<^verbatim>\<open>Math.round(x)\<close> is \<open>round x\<close>, the integer \<open>\<lfloor>x + 1/2\<rfloor>\<close>. The rounding error of
  the double-precision operations is outside the model.
\<close>

definition normalizeTo100 :: "real list \<Rightarrow> int list" where
  "normalizeTo100 values =
     (if length values = 0 then []
      else let mx = Max (set values)
           in if mx \<le> 0 then map (\<lambda>v. 0) values
              else map (\<lambda>v. round ((v / mx) * 100)) values)"

definition computeStats :: "real list \<Rightarrow> real \<times> real" where
  "computeStats arr =
     (let n = (if length arr = 0 then 1 else real (length arr));
          mean = foldl (\<lambda>a b. a + b) 0 arr / n;
          variance = foldl (\<lambda>a b. a + (b - mean)\<^sup>2) 0 arr / n;
          std = sqrt variance
      in (mean, std))"

text \<open>
  \<open>mergeCounts(docs)\<close>: a keyword without a word is skipped; the \<^verbatim>\<open>Map\<close> is an
  association list in insertion order.
\<close>

definition mergeStep :: "(string \<times> nat) list \<Rightarrow> keyword \<Rightarrow> (string \<times> nat) list" where
  "mergeStep m k =
     (if word k = [] then m
      else objSet m (word k) ((case map_of m (word k) of None \<Rightarrow> 0 | Some c \<Rightarrow> c) + count k))"

definition mergeCounts :: "keyword list list \<Rightarrow> (string \<times> nat) list" where
  "mergeCounts docs = foldl (\<lambda>m doc. foldl mergeStep m doc) [] docs"

text \<open>\<^verbatim>\<open>toDate(dstr)\<close>: the UTC noon of a day.\<close>

definition toDate :: "int \<Rightarrow> int" where
  "toDate d = d * msPerDay + 43200000"

function windowLoop :: "int \<Rightarrow> int \<Rightarrow> int list" where
  "windowLoop d end = (if d < end then isoDate d # windowLoop (d + msPerDay) end else [])"
  by pat_completeness auto
termination
  by (relation "measure (\<lambda>(d, end). nat (end - d))") (auto simp: msPerDay_def)

declare windowLoop.simps [simp del]

definition generateWindowDates :: "int \<Rightarrow> int \<Rightarrow> int list" where
  "generateWindowDates dateStr windowDays =
     (let end = toDate dateStr;
          start = end - windowDays * msPerDay
      in windowLoop start end)"

text \<open>
  \<open>ensureDailyCoverage(dateStr, windowDays)\<close>. The first 31 missing days are fetched and
  awaited; the model runs these fetches one after the other in the order of the list. The
  fetches of the remaining days are started and not awaited: their writes (daily Trends of
  days before \<open>dateStr\<close>) are not part of the store the call returns.
\<close>

definition ensureDailyCoverage :: "config \<Rightarrow> download \<Rightarrow> store \<Rightarrow> int \<Rightarrow> int \<Rightarrow> store" where
  "ensureDailyCoverage cfg download st dateStr windowDays =
     (let allNeeded = uniqueIds (dateStr # generateWindowDates dateStr windowDays);
          existing = findAll (\<lambda>t. type t = Daily \<and> date t \<in> set allNeeded) st;
          have = map date existing;
          missing = filter (\<lambda>d. d \<notin> set have) allNeeded
      in if length missing = 0 then st
         else let softAwaitLimit = 31;
                  toAwait = take softAwaitLimit missing;
                  toBackground = drop softAwaitLimit missing
              in foldl (\<lambda>s ds. snd (fetchAndProcess cfg download s (toDate ds)
                                        \<lparr>opt_jobType = Some Daily, opt_timestamp = Some (toDate ds)\<rparr>))
                   st toAwait)"

definition filterNoiseKeywords :: "keyword list \<Rightarrow> keyword list" where
  "filterNoiseKeywords ks = filter (\<lambda>k. word k \<noteq> [] \<and> \<not> isNoiseToken (word k)) ks"

text \<open>The raw score of one current keyword, the body of the loop of \<open>scoreCore\<close>.\<close>

definition rawScore :: "(string \<times> nat) list \<Rightarrow> int \<Rightarrow> real \<Rightarrow> real \<Rightarrow> keyword \<Rightarrow> real" where
  "rawScore baselineMap windowDays mean std k =
     (let base = (case map_of baselineMap (word k) of None \<Rightarrow> 0 | Some b \<Rightarrow> b);
          volume = ln (1 + real (count k));
          growth = (real (count k) + 1) / (real base / max (real_of_int windowDays) 1 + 1);
          z = (if std > 0 then (real (count k) - mean) / std else 0)
      in 0.6 * volume + 0.3 * ln (1 + growth) + 0.1 * max 0 z)"

text \<open>\<^verbatim>\<open>baselineValues.length ? baselineValues : [0]\<close>\<close>

definition statsInput :: "(string \<times> nat) list \<Rightarrow> real list" where
  "statsInput baselineMap =
     (let baselineValues = map (\<lambda>p. real (snd p)) baselineMap
      in if length baselineValues > 0 then baselineValues else [0])"

definition rawScores :: "keyword list \<Rightarrow> (string \<times> nat) list \<Rightarrow> int \<Rightarrow> (string \<times> real) list" where
  "rawScores current baselineMap windowDays =
     (let (mean, std) = computeStats (statsInput baselineMap)
      in map (\<lambda>k. (word k, rawScore baselineMap windowDays mean std k)) current)"

definition scoreCore ::
  "keyword list \<Rightarrow> (string \<times> nat) list \<Rightarrow> int \<Rightarrow> nat \<Rightarrow> (string \<times> int) list" where
  "scoreCore current baselineMap windowDays topN =
     (let scores = rawScores current baselineMap windowDays;
          normalized = normalizeTo100 (map snd scores)
      in take topN (sort_key (\<lambda>r. - snd r) (zip (map fst scores) normalized)))"

text \<open>
  \<open>scoreTrends({ date, category = 'themes', windowDays = 7, topN = 50 })\<close>; \<open>now\<close> is
  the value of \<^verbatim>\<open>new Date()\<close> when the result document is built. The call returns the
  ranked keywords and the store it leaves.
\<close>

definition scoreTrends ::
  "config \<Rightarrow> download \<Rightarrow> int \<Rightarrow> store \<Rightarrow> int \<Rightarrow> category \<Rightarrow> int \<Rightarrow> nat \<Rightarrow> keyword list \<times> store" where
  "scoreTrends cfg download now st dateStr cat windowDays topN =
     (let st1 = ensureDailyCoverage cfg download st dateStr windowDays;
          startDate = dateStr - windowDays;
          currentDoc = findOne (key3 Daily dateStr cat) st1;
          baselineDocs = findAll (\<lambda>t. type t = Daily \<and> startDate \<le> date t \<and> date t < dateStr
                                       \<and> category t = cat) st1
      in case currentDoc of
           None \<Rightarrow> ([], st1)
         | Some doc \<Rightarrow>
             if length (keywords_t doc) = 0 then ([], st1)
             else
               let usedCurrent = filterNoiseKeywords (keywords_t doc);
                   baselineMap = mergeCounts (map (\<lambda>d. filterNoiseKeywords (keywords_t d)) baselineDocs);
                   ranked = scoreCore usedCurrent baselineMap windowDays topN;
                   (usedCurrent, ranked) =
                     (if length ranked = 0 then
                        let usedLoose = filter (\<lambda>k. word k \<noteq> [] \<and> \<not> isNumericVector (word k))
                                          (keywords_t doc);
                            baselineLoose = mergeCounts
                              (map (\<lambda>d. filter (\<lambda>k. word k \<noteq> [] \<and> \<not> isNumericVector (word k))
                                           (keywords_t d)) baselineDocs)
                        in (usedLoose, scoreCore usedLoose baselineLoose windowDays topN)
                      else (usedCurrent, ranked));
                   (usedCurrent, ranked) =
                     (if length ranked = 0 then
                        let usedFallback = filter (\<lambda>k. word k \<noteq> [] \<and> \<not> isNoiseToken (word k))
                                             (keywords_t doc);
                            fallback = map (\<lambda>k. (word k, 100))
                                         (take topN (sortByCountDesc usedFallback))
                        in (usedFallback, fallback)
                      else (usedCurrent, ranked));
                   currentCountMap = foldl mergeStep [] usedCurrent;
                   rankedWithCounts =
                     map (\<lambda>r. \<lparr>word = fst r,
                                count = (case map_of currentCountMap (fst r) of None \<Rightarrow> 0 | Some c \<Rightarrow> c),
                                score = Some (snd r)\<rparr>) ranked;
                   resultDoc = \<lparr>timestamp = now, type = Ranked, date = dateStr, category = cat,
                                keywords_t = rankedWithCounts\<rparr>
               in (rankedWithCounts,
                   findOneAndUpdate (key3 Ranked dateStr cat) (\<lambda>t. resultDoc) resultDoc st1))"





section \<open>Example data\<close>

definition exampleConfig :: config where
  "exampleConfig = \<lparr>cfg_topN = 50, cfg_gdeltBaseUrl = ''http://data.gdeltproject.org/gkg'',
     cfg_gdeltDailyBaseUrl = ''http://data.gdeltproject.org/gkg''\<rparr>"

definition exampleItems :: "item collector" where
  "exampleItems =
     \<lparr>themes = [\<lparr>item_word = Some ''Tax'', item_count = Some 1, item_documents = Some [''u1'']\<rparr>,
                \<lparr>item_word = Some ''tax'', item_count = None, item_documents = Some [''u1'', ''u2'']\<rparr>],
      persons = [], orgs = [], documentIdentifiers = [''u1'', ''u2'', ''u1'']\<rparr>"

definition exampleStrings :: "string collector" where
  "exampleStrings =
     \<lparr>themes = [''tax'', ''kyiv'', ''tax''], persons = [''ada lovelace''], orgs = [],
      documentIdentifiers = [''u1'']\<rparr>"

text \<open>An environment in which exactly one URL can be fetched.\<close>

definition onlyUrl :: "string \<Rightarrow> string collector \<Rightarrow> download" where
  "onlyUrl url collector = (\<lambda>u. if u = url then Inr collector else Inl FetchFailed)"

text \<open>An environment in which every fetch fails.\<close>

definition noDownload :: download where
  "noDownload = (\<lambda>u. Inl FetchFailed)"

section \<open>Frame lemmas for upserts\<close>

lemma findOneAndUpdate_frame:
  assumes "\<And>t. flt t \<Longrightarrow> \<not> P t" and "\<not> P ins" and "\<And>t. flt t \<Longrightarrow> \<not> P (upd t)"
  shows "filter P (findOneAndUpdate flt upd ins st) = filter P st"
  using assms by (induction st) auto

lemma saveOne_frame:
  assumes "td_category td \<noteq> c \<or> td_keywords td = None \<or> td_keywords td = Some []"
  shows "filter (\<lambda>t. category t = c) (saveOne st td) = filter (\<lambda>t. category t = c) st"
proof (cases "td_keywords td")
  case None
  then show ?thesis by (simp add: saveOne_def)
next
  case (Some ks)
  show ?thesis
  proof (cases "ks = []")
    case True
    with Some show ?thesis by (simp add: saveOne_def)
  next
    case False
    with Some assms have neq: "td_category td \<noteq> c" by simp
    have "filter (\<lambda>t. category t = c)
            (findOneAndUpdate (key3 (td_type td) (td_date td) (td_category td))
              (\<lambda>t. t\<lparr>keywords_t := ks, timestamp := td_timestamp td\<rparr>)
              \<lparr>timestamp = td_timestamp td, type = td_type td, date = td_date td,
               category = td_category td, keywords_t = ks\<rparr> st)
          = filter (\<lambda>t. category t = c) st"
      using neq by (intro findOneAndUpdate_frame) (auto simp: key3_def)
    with Some False show ?thesis by (simp add: saveOne_def)
  qed
qed

lemma foldl_saveOne_frame:
  assumes "\<forall>td \<in> set tds. td_category td \<noteq> c \<or> td_keywords td = None \<or> td_keywords td = Some []"
  shows "filter (\<lambda>t. category t = c) (foldl saveOne st tds) = filter (\<lambda>t. category t = c) st"
  using assms
proof (induction tds arbitrary: st)
  case Nil
  then show ?case by simp
next
  case (Cons td tds)
  then show ?case by (simp add: saveOne_frame)
qed

section \<open>Tokenizer lemmas\<close>

lemma nullable_lang: "nullable r \<longleftrightarrow> [] \<in> lang r"
  by (induction r) (auto intro: star.intros)

lemma star_cons:
  "c # w \<in> star A \<longleftrightarrow> (\<exists>u v. w = u @ v \<and> c # u \<in> A \<and> v \<in> star A)"
proof
  assume "c # w \<in> star A"
  then show "\<exists>u v. w = u @ v \<and> c # u \<in> A \<and> v \<in> star A"
  proof (induction "c # w" arbitrary: w rule: star.induct)
    case (star_step u v)
    show ?case
    proof (cases u)
      case Nil
      with star_step show ?thesis by simp
    next
      case (Cons a u')
      with star_step.hyps star_step.prems show ?thesis by auto
    qed
  qed
next
  assume "\<exists>u v. w = u @ v \<and> c # u \<in> A \<and> v \<in> star A"
  then obtain u v where "w = u @ v" "c # u \<in> A" "v \<in> star A" by blast
  then show "c # w \<in> star A" using star_step [of "c # u" A v] by simp
qed

lemma deriv_lang: "w \<in> lang (deriv c r) \<longleftrightarrow> c # w \<in> lang r"
proof (induction r arbitrary: w)
  case (Seq r s)
  show ?case
  proof
    assume "w \<in> lang (deriv c (Seq r s))"
    then consider u v where "w = u @ v" "u \<in> lang (deriv c r)" "v \<in> lang s"
      | "nullable r" "w \<in> lang (deriv c s)"
      by (auto split: if_splits)
    then show "c # w \<in> lang (Seq r s)"
    proof cases
      case 1
      then have "c # u \<in> lang r" using Seq.IH(1) by simp
      with 1 show ?thesis by (auto intro: exI [of _ "c # u"])
    next
      case 2
      then have "[] \<in> lang r" "c # w \<in> lang s" using Seq.IH(2) nullable_lang by simp_all
      then show ?thesis by (auto intro: exI [of _ "[]"])
    qed
  next
    assume "c # w \<in> lang (Seq r s)"
    then obtain u v where uv: "c # w = u @ v" "u \<in> lang r" "v \<in> lang s" by auto
    show "w \<in> lang (deriv c (Seq r s))"
    proof (cases u)
      case Nil
      with uv have "nullable r" "w \<in> lang (deriv c s)" using Seq.IH(2) nullable_lang by simp_all
      then show ?thesis by simp
    next
      case (Cons a u')
      with uv have "u' \<in> lang (deriv c r)" "w = u' @ v" using Seq.IH(1) by simp_all
      with uv(3) show ?thesis by auto
    qed
  qed
next
  case (Star r)
  show ?case using Star.IH by (auto simp: star_cons)
qed auto

lemma fold_deriv_lang: "[] \<in> lang (fold deriv s r) \<longleftrightarrow> s \<in> lang r"
  by (induction s arbitrary: r) (simp_all add: deriv_lang)

lemma matches_lang: "matches r s \<longleftrightarrow> s \<in> lang r"
  by (simp add: matches_def nullable_lang fold_deriv_lang)

lemma wordChar_not_space: "isWordChar c \<Longrightarrow> \<not> isSpace c"
  by (auto simp: isWordChar_def isSpace_def isLowerAZ_def isUpperAZ_def isDigit_def code_def)

lemma rev_dropWhile_rev_last:
  assumes "rev (dropWhile Q (rev u)) \<noteq> []"
  shows "\<not> Q (last (rev (dropWhile Q (rev u))))"
  using assms by (simp add: last_rev hd_dropWhile)

lemma rev_dropWhile_rev_hd:
  assumes "rev (dropWhile Q (rev u)) \<noteq> []"
  shows "hd (rev (dropWhile Q (rev u))) = hd u"
proof -
  from assms obtain x where x: "x \<in> set (rev u)" "\<not> Q x"
    by (auto simp: dropWhile_eq_Nil_conv)
  then have "last (dropWhile Q (rev u)) = last (rev u)"
    by (rule dropWhile_last)
  then show ?thesis by (simp add: hd_rev last_rev)
qed

lemma stripNonWord_ends:
  assumes "stripNonWord s \<noteq> []"
  shows "isWordChar (hd (stripNonWord s)) \<and> isWordChar (last (stripNonWord s))"
proof -
  let ?u = "dropWhile (\<lambda>c. \<not> isWordChar c) s"
  have ne: "rev (dropWhile (\<lambda>c. \<not> isWordChar c) (rev ?u)) \<noteq> []"
    using assms by (simp add: stripNonWord_def)
  then have "?u \<noteq> []" by (metis rev.simps(1) dropWhile.simps(1))
  then have "isWordChar (hd ?u)" using hd_dropWhile [of "\<lambda>c. \<not> isWordChar c" s] by simp
  moreover have "hd (stripNonWord s) = hd ?u"
    unfolding stripNonWord_def using ne by (rule rev_dropWhile_rev_hd)
  moreover have "\<not> \<not> isWordChar (last (stripNonWord s))"
    unfolding stripNonWord_def using ne by (rule rev_dropWhile_rev_last)
  ultimately show ?thesis by simp
qed

lemma collapseSpaces_Nil_iff: "collapseSpaces s = [] \<longleftrightarrow> s = []"
  by (cases s) auto

lemma collapseSpaces_hd:
  "s \<noteq> [] \<Longrightarrow> \<not> isSpace (hd s) \<Longrightarrow> hd (collapseSpaces s) = hd s"
  by (cases s) auto

lemma collapseSpaces_last:
  "s \<noteq> [] \<Longrightarrow> \<not> isSpace (last s) \<Longrightarrow> last (collapseSpaces s) = last s"
proof (induction s rule: collapseSpaces.induct)
  case 1
  then show ?case by simp
next
  case (2 c cs)
  show ?case
  proof (cases "isSpace c")
    case True
    with "2.prems" have cs: "cs \<noteq> []" "\<not> isSpace (last cs)" by (auto split: if_splits)
    then have mem: "last cs \<in> set cs" by simp
    have ne: "dropWhile isSpace cs \<noteq> []"
      using mem cs(2) by (auto simp: dropWhile_eq_Nil_conv)
    have l: "last (dropWhile isSpace cs) = last cs"
      using mem cs(2) by (rule dropWhile_last)
    have "last (collapseSpaces (dropWhile isSpace cs)) = last (dropWhile isSpace cs)"
      using "2.IH"(1) [OF True ne] cs(2) l by simp
    with True cs ne l show ?thesis by (auto simp: collapseSpaces_Nil_iff)
  next
    case False
    show ?thesis
    proof (cases "cs = []")
      case True
      with False show ?thesis by simp
    next
      case ne: False
      with "2.prems" have "\<not> isSpace (last cs)" by simp
      with "2.IH"(2) [OF False ne] False ne show ?thesis
        by (simp add: collapseSpaces_Nil_iff)
    qed
  qed
qed

lemma trim_id:
  assumes "s \<noteq> []" "\<not> isSpace (hd s)" "\<not> isSpace (last s)"
  shows "trim s = s"
proof -
  have "dropWhile isSpace s = s"
    using assms(1,2) by (cases s) auto
  moreover have "dropWhile isSpace (rev s) = rev s"
    using assms(1,3) by (cases "rev s") (auto simp: hd_rev [symmetric])
  ultimately show ?thesis by (simp add: trim_def)
qed

lemma cleanKeyword_Some:
  assumes "cleanKeyword raw = Some t"
  shows "t \<noteq> [] \<and> t \<notin> set STOPWORDS \<and> trim t = t"
proof -
  let ?u = "stripNonWord (trim (toLowerCase raw))"
  from assms have t: "t = collapseSpaces ?u" and ne: "t \<noteq> []" and st: "t \<notin> set STOPWORDS"
    by (auto simp: cleanKeyword_def Let_def split: if_splits)
  from t ne have une: "?u \<noteq> []" by (auto simp: collapseSpaces_Nil_iff)
  then have w: "isWordChar (hd ?u)" "isWordChar (last ?u)"
    using stripNonWord_ends by blast+
  then have "\<not> isSpace (hd ?u)" "\<not> isSpace (last ?u)"
    by (simp_all add: wordChar_not_space)
  then have "\<not> isSpace (hd t)" "\<not> isSpace (last t)"
    using une t by (simp_all add: collapseSpaces_hd collapseSpaces_last)
  with ne have "trim t = t" by (rule trim_id)
  with ne st show ?thesis by simp
qed

lemma splitAndClean_S3:
  "splitAndClean ''TAX_POLITICAL;AND;example.com;google.com/news;1.2,3.4,5.6,7.8;covid-19;TH''
   = [''tax_political'', ''google.com/news'', ''covid-19'']"
  by code_simp

lemma google_path_not_noise:
  "\<not> isUrl ''google.com/news'' \<and> \<not> isStrictDomain ''google.com/news''"
  by code_simp

section \<open>Ranker lemmas\<close>



























section \<open>Upserts and the number of documents under a key\<close>

lemma findOneAndUpdate_same_key:
  assumes "P ins" and "\<And>t. P t \<Longrightarrow> P (upd t)"
  shows "length (filter P (findOneAndUpdate P upd ins st)) = max 1 (length (filter P st))"
  using assms by (induction st) auto

lemma upsert3_countKey:
  assumes "key3 ty' d' c' ins" and "\<And>t. key3 ty' d' c' t \<Longrightarrow> key3 ty' d' c' (upd t)"
    and "countKey ty d c st \<le> 1"
  shows "countKey ty d c (findOneAndUpdate (key3 ty' d' c') upd ins st) \<le> 1"
proof (cases "ty = ty' \<and> d = d' \<and> c = c'")
  case True
  then show ?thesis
    using findOneAndUpdate_same_key [of "key3 ty' d' c'" ins upd st] assms
    by (simp add: countKey_def)
next
  case False
  have "filter (key3 ty d c) (findOneAndUpdate (key3 ty' d' c') upd ins st) = filter (key3 ty d c) st"
  proof (rule findOneAndUpdate_frame)
    show "\<not> key3 ty d c t" if "key3 ty' d' c' t" for t
      using that False by (auto simp: key3_def)
    show "\<not> key3 ty d c ins" using assms(1) False by (auto simp: key3_def)
    show "\<not> key3 ty d c (upd t)" if "key3 ty' d' c' t" for t
      using assms(2) [OF that] False by (auto simp: key3_def)
  qed
  with assms(3) show ?thesis by (simp add: countKey_def)
qed

lemma saveOne_countKey:
  assumes "countKey ty d c st \<le> 1"
  shows "countKey ty d c (saveOne st td) \<le> 1"
proof (cases "td_keywords td")
  case None
  with assms show ?thesis by (simp add: saveOne_def)
next
  case (Some ks)
  show ?thesis
  proof (cases "ks = []")
    case True
    with Some assms show ?thesis by (simp add: saveOne_def)
  next
    case False
    have "countKey ty d c
            (findOneAndUpdate (key3 (td_type td) (td_date td) (td_category td))
              (\<lambda>t. t\<lparr>keywords_t := ks, timestamp := td_timestamp td\<rparr>)
              \<lparr>timestamp = td_timestamp td, type = td_type td, date = td_date td,
               category = td_category td, keywords_t = ks\<rparr> st) \<le> 1"
      using assms by (intro upsert3_countKey) (auto simp: key3_def)
    with Some False show ?thesis by (simp add: saveOne_def)
  qed
qed

lemma foldl_saveOne_countKey:
  "countKey ty d c st \<le> 1 \<Longrightarrow> countKey ty d c (foldl saveOne st tds) \<le> 1"
proof (induction tds arbitrary: st)
  case Nil
  then show ?case by simp
next
  case (Cons td tds)
  from Cons.prems have "countKey ty d c (saveOne st td) \<le> 1" by (rule saveOne_countKey)
  then have "countKey ty d c (foldl saveOne (saveOne st td) tds) \<le> 1" by (rule Cons.IH)
  then show ?case by simp
qed

lemma saveTrends_countKey:
  "countKey ty d c st \<le> 1 \<Longrightarrow>
   countKey ty d c (saveTrends st dt ts jobType themes_kw persons_kw orgs_kw docIds) \<le> 1"
  unfolding saveTrends_def Let_def by (rule foldl_saveOne_countKey)

lemma dayLoop_countKey:
  "countKey ty d c st \<le> 1 \<Longrightarrow> countKey ty d c (snd (dayLoop topN merged d' now cats st)) \<le> 1"
proof (induction cats arbitrary: st)
  case Nil
  then show ?case by simp
next
  case (Cons cat cats)
  show ?case
  proof (cases "rankByCount_agg (collectorGet merged cat) topN")
    case (Inl e)
    with Cons.prems show ?thesis by simp
  next
    case (Inr ranked)
    let ?doc = "\<lparr>timestamp = now, type = Daily, date = d', category = cat,
                  keywords_t = map toKeyword ranked\<rparr>"
    have "countKey ty d c (findOneAndUpdate (key3 Daily d' cat) (\<lambda>t. ?doc) ?doc st) \<le> 1"
      using Cons.prems by (intro upsert3_countKey) (auto simp: key3_def)
    then show ?thesis using Inr Cons.IH by (simp add: Let_def)
  qed
qed

lemma aggregateDaily_countKey:
  assumes "countKey ty d c st \<le> 1"
  shows "countKey ty d c (snd (aggregateDaily cfg st collectorsArray d' sel now)) \<le> 1"
proof -
  let ?m = "mergeCollectors collectorsArray"
  let ?r = "dayLoop (topNOr50 cfg) ?m d' now (categoriesToProcess sel) st"
  have 1: "countKey ty d c (snd ?r) \<le> 1" using assms by (rule dayLoop_countKey)
  let ?doc = "\<lparr>timestamp = now, type = Daily, date = d', category = Documents,
                keywords_t = map (\<lambda>id. \<lparr>word = id, count = 1, score = None\<rparr>)
                               (uniqueIds (documentIdentifiers ?m))\<rparr>"
  have 2: "countKey ty d c (findOneAndUpdate (key3 Daily d' Documents) (\<lambda>t. ?doc) ?doc (snd ?r)) \<le> 1"
    using 1 by (intro upsert3_countKey) (auto simp: key3_def)
  show ?thesis
    using 1 2 unfolding aggregateDaily_def Let_def
    by (cases ?r; cases "fst ?r") auto
qed

lemma fileLoop_frame:
  assumes "ty \<noteq> Realtime"
  shows "filter (key3 ty d c) (snd (fileLoop topN collector ts cats st)) = filter (key3 ty d c) st"
proof (induction cats arbitrary: st)
  case Nil
  then show ?case by simp
next
  case (Cons cat cats)
  show ?case
  proof (cases "rankByCount_agg (collectorGet collector cat) topN")
    case (Inl e)
    then show ?thesis by simp
  next
    case (Inr ranked)
    let ?doc = "\<lparr>timestamp = ts, type = Realtime, date = isoDate ts, category = cat,
                  keywords_t = map toKeyword ranked\<rparr>"
    have "filter (key3 ty d c) (findOneAndUpdate (key4 Realtime (isoDate ts) cat ts) (\<lambda>t. ?doc) ?doc st)
          = filter (key3 ty d c) st"
      using assms by (intro findOneAndUpdate_frame) (auto simp: key3_def key4_def)
    then show ?thesis using Inr Cons.IH by (simp add: Let_def)
  qed
qed

lemma aggregateFromFile_frame:
  assumes "ty \<noteq> Realtime"
  shows "filter (key3 ty d c) (snd (aggregateFromFile cfg st collector ts sel)) = filter (key3 ty d c) st"
proof -
  let ?r = "fileLoop (topNOr50 cfg) collector ts (categoriesToProcess sel) st"
  have 1: "filter (key3 ty d c) (snd ?r) = filter (key3 ty d c) st"
    using assms by (rule fileLoop_frame)
  let ?doc = "\<lparr>timestamp = ts, type = Realtime, date = isoDate ts, category = Documents,
                keywords_t = map (\<lambda>id. \<lparr>word = id, count = 1, score = None\<rparr>)
                               (uniqueIds (documentIdentifiers collector))\<rparr>"
  have 2: "filter (key3 ty d c) (findOneAndUpdate (key4 Realtime (isoDate ts) Documents ts) (\<lambda>t. ?doc) ?doc (snd ?r))
           = filter (key3 ty d c) (snd ?r)"
    using assms by (intro findOneAndUpdate_frame) (auto simp: key3_def key4_def)
  show ?thesis
    using 1 2 unfolding aggregateFromFile_def Let_def
    by (cases ?r; cases "fst ?r") auto
qed

lemma applyWrite_countKey:
  assumes "countKey ty d c st \<le> 1" and "ty \<noteq> Realtime \<or> \<not> isAggregateFromFile w"
  shows "countKey ty d c (applyWrite cfg st w) \<le> 1"
proof (cases w)
  case (AggregateFromFile collector ts sel)
  with assms(2) have "ty \<noteq> Realtime" by simp
  then show ?thesis
    using assms(1) AggregateFromFile by (simp add: countKey_def aggregateFromFile_frame)
next
  case (AggregateDaily collectorsArray d' sel now)
  then show ?thesis using aggregateDaily_countKey [OF assms(1)] by simp
next
  case (SaveTrends dt ts jobType themes_kw persons_kw orgs_kw docIds)
  then show ?thesis using saveTrends_countKey [OF assms(1)] by simp
qed

lemma aggStep_error: "aggStep m it = Inl e \<longleftrightarrow> item_word it = None \<and> e = TypeError"
  by (auto simp: aggStep_def Let_def split: option.splits)

lemma aggLoop_error:
  "aggLoop m arr = Inl e \<longleftrightarrow> (\<exists>it \<in> set arr. item_word it = None) \<and> e = TypeError"
proof (induction arr arbitrary: m)
  case Nil
  then show ?case by simp
next
  case (Cons it arr)
  show ?case
  proof (cases "aggStep m it")
    case (Inl e')
    then show ?thesis using aggStep_error [of m it e'] by auto
  next
    case (Inr m')
    then have "item_word it \<noteq> None" using aggStep_error [of m it TypeError] by auto
    with Inr Cons.IH [of m'] show ?thesis by auto
  qed
qed

lemma rankByCount_agg_error:
  "rankByCount_agg arr topN = Inl e \<longleftrightarrow> (\<exists>it \<in> set arr. item_word it = None) \<and> e = TypeError"
  using aggLoop_error [of "[]" arr e] by (auto simp: rankByCount_agg_def split: sum.splits)

section \<open>Fetcher lemmas\<close>

lemma saveOne_frame_type:
  assumes "td_type td \<noteq> ty"
  shows "filter (\<lambda>t. type t = ty) (saveOne st td) = filter (\<lambda>t. type t = ty) st"
proof (cases "td_keywords td")
  case None
  then show ?thesis by (simp add: saveOne_def)
next
  case (Some ks)
  have "filter (\<lambda>t. type t = ty)
          (findOneAndUpdate (key3 (td_type td) (td_date td) (td_category td))
            (\<lambda>t. t\<lparr>keywords_t := ks, timestamp := td_timestamp td\<rparr>)
            \<lparr>timestamp = td_timestamp td, type = td_type td, date = td_date td,
             category = td_category td, keywords_t = ks\<rparr> st)
        = filter (\<lambda>t. type t = ty) st"
    using assms by (intro findOneAndUpdate_frame) (auto simp: key3_def)
  with Some show ?thesis by (simp add: saveOne_def)
qed

lemma foldl_saveOne_frame_type:
  assumes "\<forall>td \<in> set tds. td_type td \<noteq> ty"
  shows "filter (\<lambda>t. type t = ty) (foldl saveOne st tds) = filter (\<lambda>t. type t = ty) st"
  using assms
proof (induction tds arbitrary: st)
  case Nil
  then show ?case by simp
next
  case (Cons td tds)
  then show ?case by (simp add: saveOne_frame_type)
qed

lemma saveTrends_frame_type:
  assumes "jobTypeOr jobType \<noteq> ty"
  shows "filter (\<lambda>t. type t = ty) (saveTrends st dt ts jobType themes_kw persons_kw orgs_kw docIds)
         = filter (\<lambda>t. type t = ty) st"
  unfolding saveTrends_def Let_def
  using assms by (intro foldl_saveOne_frame_type) auto

lemma dailyFallback_frame:
  assumes "ty \<noteq> Daily"
  shows "filter (\<lambda>t. type t = ty) (snd (dailyFallback cfg download st dt offs))
         = filter (\<lambda>t. type t = ty) st"
proof (induction offs)
  case Nil
  then show ?case by simp
next
  case (Cons k offs)
  show ?case
  proof (cases "download (dailyUrl cfg (utcMidnightBefore dt k))")
    case (Inl e)
    with Cons show ?thesis by (simp add: Let_def)
  next
    case (Inr c)
    then show ?thesis
      using assms by (simp add: Let_def saveTrends_frame_type jobTypeOr_def)
  qed
qed

lemma fetchAndProcess_is_fallback:
  "fetchAndProcess cfg download st dt opts = dailyFallback cfg download st dt [0, 1]"
  by (simp add: fetchAndProcess_def tryFifteen_def Let_def split: sum.splits)

lemma fetchAndProcess_frame:
  assumes "ty \<noteq> Daily"
  shows "filter (\<lambda>t. type t = ty) (snd (fetchAndProcess cfg download st dt opts))
         = filter (\<lambda>t. type t = ty) st"
  unfolding fetchAndProcess_is_fallback using assms by (rule dailyFallback_frame)

lemma utcMidnightBefore_day: "isoDate (utcMidnightBefore dt k) = isoDate dt - k"
  by (simp add: isoDate_def utcMidnightBefore_def msPerDay_def)

lemma utcMidnightBefore_idem: "utcMidnightBefore (utcMidnightBefore dt k) 0 = utcMidnightBefore dt k"
  by (simp add: utcMidnightBefore_def msPerDay_def)

section \<open>Scorer lemmas\<close>








lemma length_rawScores: "length (rawScores current baselineMap windowDays) = length current"
  by (simp add: rawScores_def split: prod.splits)

lemma length_normalizeTo100: "length (normalizeTo100 values) = length values"
  by (simp add: normalizeTo100_def Let_def)












lemma length_scoreCore:
  "length (scoreCore current baselineMap windowDays topN) = min topN (length current)"
  by (simp add: scoreCore_def Let_def length_normalizeTo100 length_rawScores min.commute)




lemma ensureDailyCoverage_frame:
  assumes "ty \<noteq> Daily"
  shows "filter (\<lambda>t. type t = ty) (ensureDailyCoverage cfg download st dateStr windowDays)
         = filter (\<lambda>t. type t = ty) st"
proof -
  have fold: "filter (\<lambda>t. type t = ty)
      (foldl (\<lambda>s ds. snd (fetchAndProcess cfg download s (toDate ds)
                \<lparr>opt_jobType = Some Daily, opt_timestamp = Some (toDate ds)\<rparr>)) s0 ds)
      = filter (\<lambda>t. type t = ty) s0" for s0 ds
  proof (induction ds arbitrary: s0)
    case Nil
    then show ?case by simp
  next
    case (Cons d ds)
    show ?case using Cons.IH fetchAndProcess_frame [OF assms] by simp
  qed
  show ?thesis unfolding ensureDailyCoverage_def Let_def
    by (simp only: fold if_distrib [of "filter (\<lambda>t. type t = ty)"] if_cancel)
qed

lemma findOneAndUpdate_has:
  assumes "flt ins" and "\<And>t. flt t \<Longrightarrow> flt (upd t)"
  shows "filter flt (findOneAndUpdate flt upd ins st) \<noteq> []"
proof -
  have "length (filter flt (findOneAndUpdate flt upd ins st)) = max 1 (length (filter flt st))"
    using assms by (rule findOneAndUpdate_same_key)
  then show ?thesis by auto
qed

lemma scoreTrends_scored:
  assumes "findOne (key3 Daily dateStr cat) (ensureDailyCoverage cfg download st dateStr windowDays)
           = Some doc"
    and "filterNoiseKeywords (keywords_t doc) \<noteq> []" and "0 < topN"
  shows "fst (scoreTrends cfg download now st dateStr cat windowDays topN) \<noteq> []
         \<and> filter (key3 Ranked dateStr cat)
             (snd (scoreTrends cfg download now st dateStr cat windowDays topN)) \<noteq> []"
proof -
  let ?st1 = "ensureDailyCoverage cfg download st dateStr windowDays"
  let ?uc = "filterNoiseKeywords (keywords_t doc)"
  let ?bm = "mergeCounts (map (\<lambda>d. filterNoiseKeywords (keywords_t d))
     (findAll (\<lambda>t. type t = Daily \<and> dateStr - windowDays \<le> date t \<and> date t < dateStr \<and> category t = cat) ?st1))"
  let ?ranked = "scoreCore ?uc ?bm windowDays topN"
  let ?rwc = "map (\<lambda>r. \<lparr>word = fst r,
                count = (case map_of (foldl mergeStep [] ?uc) (fst r) of None \<Rightarrow> 0 | Some c \<Rightarrow> c),
                score = Some (snd r)\<rparr>) ?ranked"
  let ?doc = "\<lparr>timestamp = now, type = Ranked, date = dateStr, category = cat, keywords_t = ?rwc\<rparr>"
  have kne: "keywords_t doc \<noteq> []" using assms(2) by (auto simp: filterNoiseKeywords_def)
  have len: "length ?ranked \<noteq> 0"
    using assms(2,3) by (simp add: length_scoreCore)
  have eq: "scoreTrends cfg download now st dateStr cat windowDays topN
        = (?rwc, findOneAndUpdate (key3 Ranked dateStr cat) (\<lambda>t. ?doc) ?doc ?st1)"
    unfolding scoreTrends_def Let_def using assms(1) kne len by simp
  have "?rwc \<noteq> []" using len by simp
  moreover have "filter (key3 Ranked dateStr cat)
      (findOneAndUpdate (key3 Ranked dateStr cat) (\<lambda>t. ?doc) ?doc ?st1) \<noteq> []"
    by (rule findOneAndUpdate_has) (simp_all add: key3_def)
  ultimately show ?thesis unfolding eq by simp
qed

lemma coverage_fetches_day:
  "ensureDailyCoverage exampleConfig
     (onlyUrl ''http://data.gdeltproject.org/gkg/20240501.gkg.csv.zip'' exampleStrings) [] 19844 1
   = [\<lparr>timestamp = 1714521600000, type = Daily, date = 19844, category = Themes,
        keywords_t = [\<lparr>word = ''tax'', count = 2, score = None\<rparr>,
                      \<lparr>word = ''kyiv'', count = 1, score = None\<rparr>]\<rparr>,
      \<lparr>timestamp = 1714521600000, type = Daily, date = 19844, category = Persons,
        keywords_t = [\<lparr>word = ''ada lovelace'', count = 1, score = None\<rparr>]\<rparr>,
      \<lparr>timestamp = 1714521600000, type = Daily, date = 19844, category = Documents,
        keywords_t = [\<lparr>word = ''u1'', count = 1, score = None\<rparr>]\<rparr>]"
  by code_simp

lemma fetchAndProcess_noDownload: "fetchAndProcess cfg noDownload st dt opts = (False, st)"
  by (simp add: fetchAndProcess_is_fallback noDownload_def)

lemma ensureDailyCoverage_noDownload: "ensureDailyCoverage cfg noDownload st dateStr windowDays = st"
proof -
  have "foldl (\<lambda>s ds. snd (fetchAndProcess cfg noDownload s (toDate ds)
                  \<lparr>opt_jobType = Some Daily, opt_timestamp = Some (toDate ds)\<rparr>)) s0 ds = s0"
    for s0 ds
    by (induction ds) (simp_all add: fetchAndProcess_noDownload)
  then show ?thesis by (simp add: ensureDailyCoverage_def Let_def)
qed

lemma example_keywords_not_noise:
  "filterNoiseKeywords [\<lparr>word = ''tax'', count = 2, score = None\<rparr>,
                        \<lparr>word = ''kyiv'', count = 1, score = None\<rparr>]
   = [\<lparr>word = ''tax'', count = 2, score = None\<rparr>, \<lparr>word = ''kyiv'', count = 1, score = None\<rparr>]"
  by code_simp

section \<open>Claims about the ranker\<close>




section \<open>Claims about the tokenizer\<close>

text \<open>
  C7. For every input string, the list returned by \<open>splitAndClean\<close> contains no stopword
  of the fixed set, no token shorter than 3 characters, no URL (\<open>isUrl\<close>: a prefix
  \<^verbatim>\<open>http://\<close>, \<^verbatim>\<open>https://\<close> or \<^verbatim>\<open>www.\<close>), no bare domain (\<open>isStrictDomain\<close>), no
  numeric vector of four or more comma-separated numbers (\<open>isNumericVector\<close>) and no
  token whose characters are more than 60 percent digits (\<open>isMostlyDigitsOrPunct\<close>).
\<close>

theorem splitAndClean_no_noise:
  "\<forall>t \<in> set (splitAndClean fieldValue).
     t \<notin> set STOPWORDS \<and> 3 \<le> length t \<and> \<not> isUrl t \<and> \<not> isStrictDomain t
     \<and> \<not> isNumericVector t \<and> \<not> isMostlyDigitsOrPunct t"
proof
  fix t
  assume "t \<in> set (splitAndClean fieldValue)"
  then obtain raw where raw: "cleanKeyword raw = Some t" and nn: "\<not> isNoiseToken t"
    by (auto simp: splitAndClean_def map_filter_def split: if_splits)
  from raw have t: "t \<noteq> []" "t \<notin> set STOPWORDS" "trim t = t"
    using cleanKeyword_Some by blast+
  from nn t show "t \<notin> set STOPWORDS \<and> 3 \<le> length t \<and> \<not> isUrl t \<and> \<not> isStrictDomain t
     \<and> \<not> isNumericVector t \<and> \<not> isMostlyDigitsOrPunct t"
    by (simp add: isNoiseToken_def Let_def split: if_splits)
qed

theorem splitAndClean_no_noise_witness:
  "''covid-19'' \<in> set (splitAndClean
       ''TAX_POLITICAL;AND;example.com;google.com/news;1.2,3.4,5.6,7.8;covid-19;TH'')
   \<and> ''covid-19'' \<notin> set STOPWORDS \<and> 3 \<le> length ''covid-19'' \<and> \<not> isUrl ''covid-19''
   \<and> \<not> isStrictDomain ''covid-19'' \<and> \<not> isNumericVector ''covid-19''
   \<and> \<not> isMostlyDigitsOrPunct ''covid-19''"
proof -
  have mem: "''covid-19'' \<in> set (splitAndClean
       ''TAX_POLITICAL;AND;example.com;google.com/news;1.2,3.4,5.6,7.8;covid-19;TH'')"
    unfolding splitAndClean_S3 by simp
  show ?thesis
    using mem splitAndClean_no_noise
      [of "''TAX_POLITICAL;AND;example.com;google.com/news;1.2,3.4,5.6,7.8;covid-19;TH''"]
    by blast
qed

text \<open>
  C8 (as amended). \<open>splitAndClean\<close> applied to the scenario string returns
  \<open>[tax_political, google.com/news, covid-19]\<close>: the stopword \<open>and\<close>, the bare domain
  \<open>example.com\<close>, the numeric vector and the 2-character token \<open>TH\<close> are dropped, and the
  path \<open>google.com/news\<close> is kept, since it neither starts like a URL nor is a bare domain.
\<close>

theorem splitAndClean_scenario:
  "splitAndClean ''TAX_POLITICAL;AND;example.com;google.com/news;1.2,3.4,5.6,7.8;covid-19;TH''
     = [''tax_political'', ''google.com/news'', ''covid-19'']
   \<and> \<not> isUrl ''google.com/news'' \<and> \<not> isStrictDomain ''google.com/news''"
  using splitAndClean_S3 google_path_not_noise by simp

theorem splitAndClean_scenario_counterexample:
  "splitAndClean ''TAX_POLITICAL;AND;example.com;google.com/news;1.2,3.4,5.6,7.8;covid-19;TH''
     \<noteq> [''tax_political'', ''covid-19'']"
  unfolding splitAndClean_S3 by simp

section \<open>Claims about the store\<close>

text \<open>
  C1 (as amended). \<open>saveTrends\<close> and \<open>aggregateDaily\<close> upsert on the match key
  (type, date, category), the timestamp being payload: in every sequence of writes issued by
  the Aggregator and \<open>saveTrends\<close>, a key that has at most one document keeps at most one,
  for the types daily and ranked always, and for the type realtime as long as the sequence
  holds no \<open>aggregateFromFile\<close> call. \<open>aggregateFromFile\<close> matches on
  (type, date, category, timestamp): two calls on the same UTC day with different
  timestamps leave two realtime documents per category.
\<close>

theorem writes_keep_one_per_key:
  assumes "countKey ty d c st \<le> 1"
    and "ty \<noteq> Realtime \<or> (\<forall>w \<in> set ws. \<not> isAggregateFromFile w)"
  shows "countKey ty d c (runWrites cfg st ws) \<le> 1"
  using assms unfolding runWrites_def
proof (induction ws arbitrary: st)
  case Nil
  then show ?case by simp
next
  case (Cons w ws)
  from Cons.prems have "countKey ty d c (applyWrite cfg st w) \<le> 1"
    by (intro applyWrite_countKey) auto
  moreover from Cons.prems have "ty \<noteq> Realtime \<or> (\<forall>w \<in> set ws. \<not> isAggregateFromFile w)" by auto
  ultimately show ?case using Cons.IH by simp
qed

theorem writes_keep_one_per_key_witness:
  "countKey Realtime 19844 Themes [] \<le> 1
   \<and> \<not> isAggregateFromFile
        (SaveTrends 1714551300000 1714551300000 None
           (Some [\<lparr>word = ''tax'', count = 2, score = None\<rparr>]) None None [])
   \<and> \<not> isAggregateFromFile
        (SaveTrends 1714552200000 1714552200000 None
           (Some [\<lparr>word = ''tax'', count = 3, score = None\<rparr>]) None None [])
   \<and> countKey Realtime 19844 Themes
        (runWrites exampleConfig []
           [SaveTrends 1714551300000 1714551300000 None
              (Some [\<lparr>word = ''tax'', count = 2, score = None\<rparr>]) None None [],
            SaveTrends 1714552200000 1714552200000 None
              (Some [\<lparr>word = ''tax'', count = 3, score = None\<rparr>]) None None []]) \<le> 1
   \<and> Daily \<noteq> Realtime
   \<and> countKey Daily 19844 Themes
        (runWrites exampleConfig []
           [AggregateFromFile exampleItems 1714551300000 All,
            AggregateDaily [exampleItems] 19844 All 1714608000000,
            SaveTrends 1714521600000 1714521600000 (Some Daily)
              (Some [\<lparr>word = ''tax'', count = 3, score = None\<rparr>]) None None []]) \<le> 1"
proof -
  let ?ws = "[SaveTrends 1714551300000 1714551300000 None
              (Some [\<lparr>word = ''tax'', count = 2, score = None\<rparr>]) None None [],
            SaveTrends 1714552200000 1714552200000 None
              (Some [\<lparr>word = ''tax'', count = 3, score = None\<rparr>]) None None []]"
  let ?vs = "[AggregateFromFile exampleItems 1714551300000 All,
            AggregateDaily [exampleItems] 19844 All 1714608000000,
            SaveTrends 1714521600000 1714521600000 (Some Daily)
              (Some [\<lparr>word = ''tax'', count = 3, score = None\<rparr>]) None None []]"
  have h1: "countKey Realtime 19844 Themes [] \<le> 1" by (simp add: countKey_def)
  have h2: "Realtime \<noteq> Realtime \<or> (\<forall>w \<in> set ?ws. \<not> isAggregateFromFile w)" by simp
  have g1: "countKey Daily 19844 Themes [] \<le> 1" by (simp add: countKey_def)
  have d: "Daily \<noteq> Realtime" by simp
  then have g2: "Daily \<noteq> Realtime \<or> (\<forall>w \<in> set ?vs. \<not> isAggregateFromFile w)" by (rule disjI1)
  have 1: "countKey Realtime 19844 Themes (runWrites exampleConfig [] ?ws) \<le> 1"
    using h1 h2 by (rule writes_keep_one_per_key)
  have 2: "countKey Daily 19844 Themes (runWrites exampleConfig [] ?vs) \<le> 1"
    using g1 g2 by (rule writes_keep_one_per_key)
  have 3: "\<not> isAggregateFromFile
        (SaveTrends 1714551300000 1714551300000 None
           (Some [\<lparr>word = ''tax'', count = 2, score = None\<rparr>]) None None [])" by simp
  have 4: "\<not> isAggregateFromFile
        (SaveTrends 1714552200000 1714552200000 None
           (Some [\<lparr>word = ''tax'', count = 3, score = None\<rparr>]) None None [])" by simp
  show ?thesis using h1 3 4 1 d 2 by (intro conjI)
qed

theorem aggregateFromFile_two_snapshots_counterexample:
  "isoDate 1714551300000 = 19844 \<and> isoDate 1714552200000 = 19844
   \<and> countKey Realtime 19844 Themes
       (runWrites exampleConfig []
          [AggregateFromFile exampleItems 1714551300000 All,
           AggregateFromFile exampleItems 1714552200000 All]) = 2"
  by (simp add: isoDate_def msPerDay_def countKey_def runWrites_def aggregateFromFile_def
      exampleConfig_def exampleItems_def topNOr50_def categoriesToProcess_def
      rankByCount_agg_def aggStep_def countOr1_def setAdd_def collectorGet_def toKeyword_def
      toLowerCase_def toLowerChar_def isUpperAZ_def code_def key3_def key4_def uniqueIds_def
      Let_def)

text \<open>
  C6 (as amended). \<open>rankByCount\<close> of the Aggregator does not validate its items: when an
  item has no word the call throws a TypeError and returns nothing; when every item has a
  word the call returns a ranking of at most \<open>topN\<close> entries.
\<close>

theorem rankByCount_agg_missing_word:
  "((\<exists>it \<in> set arr. item_word it = None) \<longrightarrow> rankByCount_agg arr topN = Inl TypeError)
   \<and> ((\<forall>it \<in> set arr. item_word it \<noteq> None) \<longrightarrow>
        (\<exists>out. rankByCount_agg arr topN = Inr out \<and> length out \<le> topN))"
proof (intro conjI impI)
  assume "\<exists>it \<in> set arr. item_word it = None"
  then show "rankByCount_agg arr topN = Inl TypeError"
    using rankByCount_agg_error [of arr topN TypeError] by simp
next
  assume all: "\<forall>it \<in> set arr. item_word it \<noteq> None"
  show "\<exists>out. rankByCount_agg arr topN = Inr out \<and> length out \<le> topN"
  proof (cases "rankByCount_agg arr topN")
    case (Inl e)
    with all show ?thesis using rankByCount_agg_error [of arr topN e] by auto
  next
    case (Inr out)
    then have "length out \<le> topN"
      by (auto simp: rankByCount_agg_def split: sum.splits)
    with Inr show ?thesis by simp
  qed
qed

theorem rankByCount_agg_missing_word_witness:
  "item_word \<lparr>item_word = None, item_count = Some 1, item_documents = None\<rparr> = None
   \<and> rankByCount_agg
       [\<lparr>item_word = Some ''tax'', item_count = Some 1, item_documents = None\<rparr>,
        \<lparr>item_word = None, item_count = Some 1, item_documents = None\<rparr>] 50 = Inl TypeError
   \<and> item_word \<lparr>item_word = Some ''tax'', item_count = Some 1, item_documents = None\<rparr> \<noteq> None
   \<and> (\<exists>out. rankByCount_agg
               [\<lparr>item_word = Some ''tax'', item_count = Some 1, item_documents = None\<rparr>] 50
             = Inr out \<and> length out \<le> 50)"
proof -
  have 1: "rankByCount_agg
       [\<lparr>item_word = Some ''tax'', item_count = Some 1, item_documents = None\<rparr>,
        \<lparr>item_word = None, item_count = Some 1, item_documents = None\<rparr>] 50 = Inl TypeError"
    using rankByCount_agg_missing_word
      [of "[\<lparr>item_word = Some ''tax'', item_count = Some 1, item_documents = None\<rparr>,
            \<lparr>item_word = None, item_count = Some 1, item_documents = None\<rparr>]" 50]
    by simp
  have 2: "\<exists>out. rankByCount_agg
               [\<lparr>item_word = Some ''tax'', item_count = Some 1, item_documents = None\<rparr>] 50
             = Inr out \<and> length out \<le> 50"
    using rankByCount_agg_missing_word
      [of "[\<lparr>item_word = Some ''tax'', item_count = Some 1, item_documents = None\<rparr>]" 50]
    by simp
  show ?thesis using 1 2 by simp
qed

theorem rankByCount_agg_missing_word_counterexample:
  "rankByCount_agg
     [\<lparr>item_word = None, item_count = Some 2, item_documents = None\<rparr>,
      \<lparr>item_word = Some ''tax'', item_count = Some 1, item_documents = None\<rparr>] 50 = Inl TypeError
   \<and> rankByCount_agg
     [\<lparr>item_word = Some ''tax'', item_count = Some 1, item_documents = None\<rparr>] 50
     = Inr [\<lparr>entry_word = ''tax'', entry_count = 1, entry_documents = []\<rparr>]"
  by (simp add: rankByCount_agg_def aggStep_def countOr1_def toLowerCase_def toLowerChar_def
      isUpperAZ_def code_def Let_def)

section \<open>Claims about the fetcher\<close>

text \<open>
  C3. The claim: when the 15-minute file downloads, decompresses and parses, the ranked
  results are saved under the caller's job type (realtime by default) and the daily ladder
  is not entered. The current \<open>fetchAndProcess\<close> does not do so. At the input below the
  15-minute file of 2024-05-01T08:22:17Z is fetched and parsed and both daily files fail:
  the call returns \<open>false\<close> and writes nothing, because the block throws on the unbound
  \<^verbatim>\<open>d\<close> and the daily ladder is entered; the earlier revision of the function saves the
  realtime Trends at the same input.
\<close>

theorem fetchAndProcess_fifteen_success_not_saved:
  "fetchAndProcess exampleConfig
     (onlyUrl ''http://data.gdeltproject.org/gkg/20240501081500.gkg.csv.zip'' exampleStrings)
     [] 1714551737000 \<lparr>opt_jobType = Some Realtime, opt_timestamp = None\<rparr> = (False, [])
   \<and> fetchAndProcess_v0 exampleConfig
     (onlyUrl ''http://data.gdeltproject.org/gkg/20240501081500.gkg.csv.zip'' exampleStrings)
     [] 1714551737000 \<lparr>opt_jobType = Some Realtime, opt_timestamp = None\<rparr>
     = (True,
        [\<lparr>timestamp = 1714551737000, type = Realtime, date = 19844, category = Themes,
           keywords_t = [\<lparr>word = ''tax'', count = 2, score = None\<rparr>,
                         \<lparr>word = ''kyiv'', count = 1, score = None\<rparr>]\<rparr>,
         \<lparr>timestamp = 1714551737000, type = Realtime, date = 19844, category = Persons,
           keywords_t = [\<lparr>word = ''ada lovelace'', count = 1, score = None\<rparr>]\<rparr>])"
  by code_simp

text \<open>
  C4. When the 15-minute fetch fails, \<open>fetchAndProcess\<close> tries the daily file of the day
  of the date and then of the day before. On the first success it saves the ranked lists
  with job type daily and the date of the attempted day and returns \<open>true\<close>; when both
  attempts fail it returns \<open>false\<close> and leaves the store as it was. No realtime Trend is
  written or changed.
\<close>

theorem fetchAndProcess_fallback_ladder:
  assumes "download (fifteenUrl cfg dt) = Inl err"
  shows "fetchAndProcess cfg download st dt opts =
           (case download (dailyUrl cfg (utcMidnightBefore dt 0)) of
              Inr c \<Rightarrow>
                (True, saveTrends st (utcMidnightBefore dt 0) (utcMidnightBefore dt 0) (Some Daily)
                         (Some (ranked_themes (rankCollector cfg c)))
                         (Some (ranked_persons (rankCollector cfg c)))
                         (Some (ranked_orgs (rankCollector cfg c))) (documentIdentifiers c))
            | Inl e0 \<Rightarrow>
                (case download (dailyUrl cfg (utcMidnightBefore dt 1)) of
                   Inr c \<Rightarrow>
                     (True, saveTrends st (utcMidnightBefore dt 1) (utcMidnightBefore dt 1) (Some Daily)
                              (Some (ranked_themes (rankCollector cfg c)))
                              (Some (ranked_persons (rankCollector cfg c)))
                              (Some (ranked_orgs (rankCollector cfg c))) (documentIdentifiers c))
                 | Inl e1 \<Rightarrow> (False, st)))
         \<and> isoDate (utcMidnightBefore dt 0) = isoDate dt
         \<and> isoDate (utcMidnightBefore dt 1) = isoDate dt - 1
         \<and> filter (\<lambda>t. type t = Realtime) (snd (fetchAndProcess cfg download st dt opts))
             = filter (\<lambda>t. type t = Realtime) st"
proof -
  have "fetchAndProcess cfg download st dt opts = dailyFallback cfg download st dt [0, 1]"
    using assms by (simp add: fetchAndProcess_def tryFifteen_def)
  then have a: "fetchAndProcess cfg download st dt opts =
           (case download (dailyUrl cfg (utcMidnightBefore dt 0)) of
              Inr c \<Rightarrow>
                (True, saveTrends st (utcMidnightBefore dt 0) (utcMidnightBefore dt 0) (Some Daily)
                         (Some (ranked_themes (rankCollector cfg c)))
                         (Some (ranked_persons (rankCollector cfg c)))
                         (Some (ranked_orgs (rankCollector cfg c))) (documentIdentifiers c))
            | Inl e0 \<Rightarrow>
                (case download (dailyUrl cfg (utcMidnightBefore dt 1)) of
                   Inr c \<Rightarrow>
                     (True, saveTrends st (utcMidnightBefore dt 1) (utcMidnightBefore dt 1) (Some Daily)
                              (Some (ranked_themes (rankCollector cfg c)))
                              (Some (ranked_persons (rankCollector cfg c)))
                              (Some (ranked_orgs (rankCollector cfg c))) (documentIdentifiers c))
                 | Inl e1 \<Rightarrow> (False, st)))"
    by (simp add: Let_def utcMidnightBefore_idem split: sum.splits)
  have b: "filter (\<lambda>t. type t = Realtime) (snd (fetchAndProcess cfg download st dt opts))
             = filter (\<lambda>t. type t = Realtime) st"
    by (rule fetchAndProcess_frame) simp
  show ?thesis using a b utcMidnightBefore_day [of dt 0] utcMidnightBefore_day [of dt 1] by simp
qed

theorem fetchAndProcess_fallback_ladder_witness:
  "onlyUrl ''http://data.gdeltproject.org/gkg/20240430.gkg.csv.zip'' exampleStrings
     (fifteenUrl exampleConfig 1714551737000) = Inl FetchFailed
   \<and> fetchAndProcess exampleConfig
       (onlyUrl ''http://data.gdeltproject.org/gkg/20240430.gkg.csv.zip'' exampleStrings)
       [] 1714551737000 \<lparr>opt_jobType = Some Realtime, opt_timestamp = None\<rparr>
     = (True,
        [\<lparr>timestamp = 1714435200000, type = Daily, date = 19843, category = Themes,
           keywords_t = [\<lparr>word = ''tax'', count = 2, score = None\<rparr>,
                         \<lparr>word = ''kyiv'', count = 1, score = None\<rparr>]\<rparr>,
         \<lparr>timestamp = 1714435200000, type = Daily, date = 19843, category = Persons,
           keywords_t = [\<lparr>word = ''ada lovelace'', count = 1, score = None\<rparr>]\<rparr>,
         \<lparr>timestamp = 1714435200000, type = Daily, date = 19843, category = Documents,
           keywords_t = [\<lparr>word = ''u1'', count = 1, score = None\<rparr>]\<rparr>])"
proof -
  let ?download = "onlyUrl ''http://data.gdeltproject.org/gkg/20240430.gkg.csv.zip'' exampleStrings"
  have h: "?download (fifteenUrl exampleConfig 1714551737000) = Inl FetchFailed"
    by code_simp
  have v: "(case ?download (dailyUrl exampleConfig (utcMidnightBefore 1714551737000 0)) of
              Inr c \<Rightarrow>
                (True, saveTrends [] (utcMidnightBefore 1714551737000 0)
                         (utcMidnightBefore 1714551737000 0) (Some Daily)
                         (Some (ranked_themes (rankCollector exampleConfig c)))
                         (Some (ranked_persons (rankCollector exampleConfig c)))
                         (Some (ranked_orgs (rankCollector exampleConfig c))) (documentIdentifiers c))
            | Inl e0 \<Rightarrow>
                (case ?download (dailyUrl exampleConfig (utcMidnightBefore 1714551737000 1)) of
                   Inr c \<Rightarrow>
                     (True, saveTrends [] (utcMidnightBefore 1714551737000 1)
                              (utcMidnightBefore 1714551737000 1) (Some Daily)
                              (Some (ranked_themes (rankCollector exampleConfig c)))
                              (Some (ranked_persons (rankCollector exampleConfig c)))
                              (Some (ranked_orgs (rankCollector exampleConfig c))) (documentIdentifiers c))
                 | Inl e1 \<Rightarrow> (False, [])))
      = (True,
        [\<lparr>timestamp = 1714435200000, type = Daily, date = 19843, category = Themes,
           keywords_t = [\<lparr>word = ''tax'', count = 2, score = None\<rparr>,
                         \<lparr>word = ''kyiv'', count = 1, score = None\<rparr>]\<rparr>,
         \<lparr>timestamp = 1714435200000, type = Daily, date = 19843, category = Persons,
           keywords_t = [\<lparr>word = ''ada lovelace'', count = 1, score = None\<rparr>]\<rparr>,
         \<lparr>timestamp = 1714435200000, type = Daily, date = 19843, category = Documents,
           keywords_t = [\<lparr>word = ''u1'', count = 1, score = None\<rparr>]\<rparr>])"
    by code_simp
  show ?thesis
    using h v fetchAndProcess_fallback_ladder [of ?download exampleConfig 1714551737000
        FetchFailed "[]" "\<lparr>opt_jobType = Some Realtime, opt_timestamp = None\<rparr>"]
    by simp
qed

section \<open>Claims about the scorer\<close>



text \<open>
  C9 (as amended). For every date and category: if, once \<open>ensureDailyCoverage\<close> has run,
  the store holds no daily Trend for that date and category, or the one it finds has an
  empty keyword list, then \<open>scoreTrends\<close> returns the empty list and writes no ranked
  Trend: the ranked documents of the store are those it held before the call.
\<close>

theorem scoreTrends_no_current_doc:
  assumes "findOne (key3 Daily dateStr cat) (ensureDailyCoverage cfg download st dateStr windowDays) = None
         \<or> (\<exists>doc. findOne (key3 Daily dateStr cat)
                     (ensureDailyCoverage cfg download st dateStr windowDays) = Some doc
                  \<and> keywords_t doc = [])"
  shows "scoreTrends cfg download now st dateStr cat windowDays topN
           = ([], ensureDailyCoverage cfg download st dateStr windowDays)
         \<and> filter (\<lambda>t. type t = Ranked)
             (snd (scoreTrends cfg download now st dateStr cat windowDays topN))
           = filter (\<lambda>t. type t = Ranked) st"
proof -
  have a: "scoreTrends cfg download now st dateStr cat windowDays topN
           = ([], ensureDailyCoverage cfg download st dateStr windowDays)"
    using assms unfolding scoreTrends_def Let_def by (auto split: option.splits)
  have "filter (\<lambda>t. type t = Ranked) (ensureDailyCoverage cfg download st dateStr windowDays)
        = filter (\<lambda>t. type t = Ranked) st"
    by (rule ensureDailyCoverage_frame) simp
  with a show ?thesis by simp
qed

theorem scoreTrends_no_current_doc_witness:
  "findOne (key3 Daily 19844 Themes)
     (ensureDailyCoverage exampleConfig noDownload
        [\<lparr>timestamp = 1714521600000, type = Daily, date = 19844, category = Persons,
           keywords_t = [\<lparr>word = ''ada lovelace'', count = 1, score = None\<rparr>]\<rparr>] 19844 7) = None
   \<and> scoreTrends exampleConfig noDownload 1714608000000
        [\<lparr>timestamp = 1714521600000, type = Daily, date = 19844, category = Persons,
           keywords_t = [\<lparr>word = ''ada lovelace'', count = 1, score = None\<rparr>]\<rparr>]
        19844 Themes 7 50
     = ([], [\<lparr>timestamp = 1714521600000, type = Daily, date = 19844, category = Persons,
               keywords_t = [\<lparr>word = ''ada lovelace'', count = 1, score = None\<rparr>]\<rparr>])
   \<and> findOne (key3 Daily 19844 Themes)
        (ensureDailyCoverage exampleConfig noDownload
           [\<lparr>timestamp = 1714521600000, type = Daily, date = 19844, category = Themes,
              keywords_t = []\<rparr>] 19844 7)
       = Some \<lparr>timestamp = 1714521600000, type = Daily, date = 19844, category = Themes,
               keywords_t = []\<rparr>
   \<and> scoreTrends exampleConfig noDownload 1714608000000
        [\<lparr>timestamp = 1714521600000, type = Daily, date = 19844, category = Themes,
           keywords_t = []\<rparr>] 19844 Themes 7 50
     = ([], [\<lparr>timestamp = 1714521600000, type = Daily, date = 19844, category = Themes,
               keywords_t = []\<rparr>])"
proof -
  let ?st = "[\<lparr>timestamp = 1714521600000, type = Daily, date = 19844, category = Persons,
                keywords_t = [\<lparr>word = ''ada lovelace'', count = 1, score = None\<rparr>]\<rparr>]"
  let ?e = "\<lparr>timestamp = 1714521600000, type = Daily, date = 19844, category = Themes,
              keywords_t = []\<rparr>"
  have n: "findOne (key3 Daily 19844 Themes)
             (ensureDailyCoverage exampleConfig noDownload ?st 19844 7) = None"
    unfolding ensureDailyCoverage_noDownload by (simp add: findOne_def key3_def)
  then have h: "findOne (key3 Daily 19844 Themes)
             (ensureDailyCoverage exampleConfig noDownload ?st 19844 7) = None
     \<or> (\<exists>doc. findOne (key3 Daily 19844 Themes)
                 (ensureDailyCoverage exampleConfig noDownload ?st 19844 7) = Some doc
              \<and> keywords_t doc = [])"
    by (rule disjI1)
  have m: "findOne (key3 Daily 19844 Themes)
             (ensureDailyCoverage exampleConfig noDownload [?e] 19844 7) = Some ?e"
    unfolding ensureDailyCoverage_noDownload by (simp add: findOne_def key3_def)
  then have g: "findOne (key3 Daily 19844 Themes)
             (ensureDailyCoverage exampleConfig noDownload [?e] 19844 7) = None
     \<or> (\<exists>doc. findOne (key3 Daily 19844 Themes)
                 (ensureDailyCoverage exampleConfig noDownload [?e] 19844 7) = Some doc
              \<and> keywords_t doc = [])"
    by simp
  have 1: "scoreTrends exampleConfig noDownload 1714608000000 ?st 19844 Themes 7 50 = ([], ?st)"
    using scoreTrends_no_current_doc [OF h, of 1714608000000 50]
    by (simp only: ensureDailyCoverage_noDownload)
  have 2: "scoreTrends exampleConfig noDownload 1714608000000 [?e] 19844 Themes 7 50 = ([], [?e])"
    using scoreTrends_no_current_doc [OF g, of 1714608000000 50]
    by (simp only: ensureDailyCoverage_noDownload)
  show ?thesis using n 1 m 2 by (intro conjI)
qed

text \<open>
  The claim as stated speaks of the store at the time of the call. It fails when the
  coverage phase fetches the day: the store is empty, the daily file of 2024-05-01 is
  available, and \<open>scoreTrends\<close> returns a non-empty ranking and writes a ranked Trend.
\<close>

theorem scoreTrends_fetches_then_scores_counterexample:
  "findOne (key3 Daily 19844 Themes) [] = None
   \<and> fst (scoreTrends exampleConfig
            (onlyUrl ''http://data.gdeltproject.org/gkg/20240501.gkg.csv.zip'' exampleStrings)
            1714608000000 [] 19844 Themes 1 50) \<noteq> []
   \<and> filter (\<lambda>t. type t = Ranked)
         (snd (scoreTrends exampleConfig
            (onlyUrl ''http://data.gdeltproject.org/gkg/20240501.gkg.csv.zip'' exampleStrings)
            1714608000000 [] 19844 Themes 1 50))
       \<noteq> filter (\<lambda>t. type t = Ranked) []"
proof -
  let ?download = "onlyUrl ''http://data.gdeltproject.org/gkg/20240501.gkg.csv.zip'' exampleStrings"
  let ?doc = "\<lparr>timestamp = 1714521600000, type = Daily, date = 19844, category = Themes,
                keywords_t = [\<lparr>word = ''tax'', count = 2, score = None\<rparr>,
                              \<lparr>word = ''kyiv'', count = 1, score = None\<rparr>]\<rparr>"
  have cur: "findOne (key3 Daily 19844 Themes)
               (ensureDailyCoverage exampleConfig ?download [] 19844 1) = Some ?doc"
    unfolding coverage_fetches_day by (simp add: findOne_def key3_def)
  have kw: "filterNoiseKeywords (keywords_t ?doc) \<noteq> []"
    using example_keywords_not_noise by simp
  have "fst (scoreTrends exampleConfig ?download 1714608000000 [] 19844 Themes 1 50) \<noteq> []
        \<and> filter (key3 Ranked 19844 Themes)
            (snd (scoreTrends exampleConfig ?download 1714608000000 [] 19844 Themes 1 50)) \<noteq> []"
    using cur kw by (rule scoreTrends_scored) simp
  moreover have "filter (\<lambda>t. type t = Ranked) xs \<noteq> []" if "filter (key3 Ranked 19844 Themes) xs \<noteq> []" for xs
    using that by (auto simp: filter_empty_conv key3_def)
  ultimately show ?thesis by (simp add: findOne_def)
qed

section \<open>Claim about saveTrends\<close>

text \<open>
  C10. For every call to \<open>saveTrends\<close> and every category whose keyword list is empty or
  absent, no upsert is issued under that category: the documents of that category, and so
  the persisted Trend under the key (type, date, category), are exactly those the store held
  before the call. Only categories with a non-empty keyword list are written.
\<close>

theorem saveTrends_skips_empty_category:
  assumes "givenKeywords themes_kw persons_kw orgs_kw docIds c = None
         \<or> givenKeywords themes_kw persons_kw orgs_kw docIds c = Some []"
  shows "filter (\<lambda>t. category t = c)
           (saveTrends st dt ts jobType themes_kw persons_kw orgs_kw docIds)
         = filter (\<lambda>t. category t = c) st"
proof -
  have "docIds = []" if "c = Documents"
    using assms that by (simp add: givenKeywords_def)
  then show ?thesis
    using assms unfolding saveTrends_def Let_def
    by (intro foldl_saveOne_frame) (cases c; auto simp: givenKeywords_def)
qed

theorem saveTrends_skips_empty_category_witness:
  "givenKeywords None (Some [\<lparr>word = ''kyiv'', count = 2, score = None\<rparr>]) (Some []) [] Themes = None
   \<and> filter (\<lambda>t. category t = Themes)
       (saveTrends
          [\<lparr>timestamp = 5, type = Daily, date = 19844, category = Themes,
            keywords_t = [\<lparr>word = ''tax'', count = 7, score = None\<rparr>]\<rparr>]
          1714521600000 1714521600000 (Some Daily)
          None (Some [\<lparr>word = ''kyiv'', count = 2, score = None\<rparr>]) (Some []) [])
     = [\<lparr>timestamp = 5, type = Daily, date = 19844, category = Themes,
         keywords_t = [\<lparr>word = ''tax'', count = 7, score = None\<rparr>]\<rparr>]
   \<and> givenKeywords None (Some [\<lparr>word = ''kyiv'', count = 2, score = None\<rparr>]) (Some []) [] Orgs = Some []
   \<and> filter (\<lambda>t. category t = Orgs)
       (saveTrends
          [\<lparr>timestamp = 5, type = Daily, date = 19844, category = Themes,
            keywords_t = [\<lparr>word = ''tax'', count = 7, score = None\<rparr>]\<rparr>]
          1714521600000 1714521600000 (Some Daily)
          None (Some [\<lparr>word = ''kyiv'', count = 2, score = None\<rparr>]) (Some []) [])
     = []"
proof -
  let ?st = "[\<lparr>timestamp = 5, type = Daily, date = 19844, category = Themes,
                keywords_t = [\<lparr>word = ''tax'', count = 7, score = None\<rparr>]\<rparr>]"
  let ?p = "Some [\<lparr>word = ''kyiv'', count = 2, score = None\<rparr>]"
  have t: "givenKeywords None ?p (Some []) [] Themes = None" by (simp add: givenKeywords_def)
  have ht: "givenKeywords None ?p (Some []) [] Themes = None
     \<or> givenKeywords None ?p (Some []) [] Themes = Some []" using t by (rule disjI1)
  have o: "givenKeywords None ?p (Some []) [] Orgs = Some []" by (simp add: givenKeywords_def)
  have ho: "givenKeywords None ?p (Some []) [] Orgs = None
     \<or> givenKeywords None ?p (Some []) [] Orgs = Some []" using o by (rule disjI2)
  have 1: "filter (\<lambda>t. category t = Themes)
             (saveTrends ?st 1714521600000 1714521600000 (Some Daily) None ?p (Some []) []) = ?st"
    using saveTrends_skips_empty_category [OF ht, of ?st 1714521600000 1714521600000 "Some Daily"]
    by simp
  have 2: "filter (\<lambda>t. category t = Orgs)
             (saveTrends ?st 1714521600000 1714521600000 (Some Daily) None ?p (Some []) []) = []"
    using saveTrends_skips_empty_category [OF ho, of ?st 1714521600000 1714521600000 "Some Daily"]
    by simp
  show ?thesis using t o 1 2 by (simp only: simp_thms)
qed


end
